theory Spec2Isabelle
  imports Main "HOL-Library.Word" "HOL-Library.Sublist" "HOL-Library.Multiset"
begin

section \<open>The node agent's OperatingSystemConfig reconciler\<close>

text \<open>
  A shallow embedding of \<^verbatim>\<open>pkg/nodeagent/controller/operatingsystemconfig/reconciler.go\<close>.
  The reconciler talks to three capabilities it does not implement: a filesystem
  (\<^verbatim>\<open>afero.Afero\<close>), the service manager (\<^verbatim>\<open>dbus.DBus\<close>) and the API server
  (\<^verbatim>\<open>client.Client\<close>). Each call to one of them is recorded, in order, in the trace of
  the world, and may fail with an error chosen by the environment (\<open>fault\<close>), which sees
  the calls made so far. Logging and the reconciliation timeout are not modelled.
\<close>

subsection \<open>Errors\<close>

text \<open>
  A Go \<^verbatim>\<open>error\<close>. \<open>Wrap msg e\<close> is \<^verbatim>\<open>fmt.Errorf("msg: %w", e)\<close>; a returned
  \<^verbatim>\<open>nil\<close> error is \<open>None\<close>.
\<close>

datatype err = ErrFileNotFound | ErrAPINotFound | ErrOther string | Wrap string err

text \<open>\<^verbatim>\<open>errors.Is(err, afero.ErrFileNotFound)\<close>: follows the chain of wrapped errors.\<close>

fun isErrFileNotFound :: "err \<Rightarrow> bool" where
  "isErrFileNotFound ErrFileNotFound = True"
| "isErrFileNotFound ErrAPINotFound = False"
| "isErrFileNotFound (ErrOther m) = False"
| "isErrFileNotFound (Wrap m e) = isErrFileNotFound e"

text \<open>\<^verbatim>\<open>apierrors.IsNotFound(err)\<close>.\<close>

fun IsNotFound :: "err \<Rightarrow> bool" where
  "IsNotFound ErrAPINotFound = True"
| "IsNotFound ErrFileNotFound = False"
| "IsNotFound (ErrOther m) = False"
| "IsNotFound (Wrap m e) = IsNotFound e"

text \<open>The \<^verbatim>\<open>%q\<close> verb, without its escaping of special characters.\<close>

definition quoted :: "string \<Rightarrow> string" where
  "quoted s = CHR 0x22 # s @ [CHR 0x22]"

subsection \<open>Data model\<close>

type_synonym path = string
type_synonym bytes = string
type_synonym FileMode = "32 word"

text \<open>
  The types of \<^verbatim>\<open>extensionsv1alpha1\<close> (\<^verbatim>\<open>File\<close>, \<^verbatim>\<open>Unit\<close>, \<^verbatim>\<open>DropIn\<close>) and the
  package's \<^verbatim>\<open>changedUnit\<close> and \<^verbatim>\<open>operatingSystemConfigChanges\<close> are declared outside
  the file; the records carry the fields the reconciler reads. A Go pointer field is an
  option, \<^verbatim>\<open>nil\<close> being \<open>None\<close>. The field \<open>Inline\<close> of a file is
  \<^verbatim>\<open>file.Content.Inline\<close>; the permissions are the bits of an \<^verbatim>\<open>int32\<close>.
\<close>

record FileContentInline =
  Encoding :: string
  Data :: string

record File =
  Path :: path
  Permissions :: "32 word option"
  Inline :: "FileContentInline option"

text \<open>Modelled from the spec: the unit command is an optional enum of Start and Stop.\<close>

datatype UnitCommand = CommandStart | CommandStop

record DropIn =
  DropInName :: string
  DropInContent :: string

record Unit =
  Name :: string
  Command :: "UnitCommand option"
  Enable :: "bool option"
  Content :: "string option"
  DropIns :: "DropIn list"

text \<open>
  \<^verbatim>\<open>changedUnit\<close> embeds \<^verbatim>\<open>Unit\<close> and adds the sub-diff \<^verbatim>\<open>dropIns\<close> with its
  \<^verbatim>\<open>changed\<close> and \<^verbatim>\<open>deleted\<close> lists.
\<close>

record changedUnit = Unit +
  dropInsChanged :: "DropIn list"
  dropInsDeleted :: "DropIn list"

record operatingSystemConfigChanges =
  filesChanged :: "File list"
  filesDeleted :: "File list"
  unitsChanged :: "changedUnit list"
  unitsDeleted :: "Unit list"

text \<open>\<^verbatim>\<open>pointer.BoolDeref\<close>.\<close>

definition BoolDeref :: "bool option \<Rightarrow> bool \<Rightarrow> bool" where
  "BoolDeref p d = (case p of None \<Rightarrow> d | Some b \<Rightarrow> b)"

subsection \<open>The world: filesystem, API objects and the trace of calls\<close>

datatype entry = RegularFile bytes FileMode | Directory FileMode

type_synonym Secret = "string \<rightharpoonup> bytes"
type_synonym annotations = "string \<rightharpoonup> string"

datatype call =
    FS_TempDir string string
  | FS_MkdirAll path FileMode
  | FS_WriteFile path bytes FileMode
  | FS_Rename path path
  | FS_Remove path
  | FS_RemoveAll path
  | FS_ReadFile path
  | FS_Chmod path FileMode
  | DBus_Enable string
  | DBus_Disable string
  | DBus_Stop string
  | DBus_Restart string
  | DBus_DaemonReload
  | Client_GetSecret
  | Client_GetNode string
  | Client_Patch "(string \<times> string) list"
  | Recorder_Event string string

record world =
  fs :: "path \<rightharpoonup> entry"
  secret :: "Secret option"
  node :: "annotations option"
  trace :: "call list"

text \<open>
  The \<^verbatim>\<open>Reconciler\<close> struct. \<open>fault\<close> and \<open>tempDirName\<close> stand for the behaviour of the
  capabilities \<^verbatim>\<open>Client\<close>, \<^verbatim>\<open>DBus\<close> and \<^verbatim>\<open>FS\<close>: which call fails after which
  history, and which name \<^verbatim>\<open>TempDir\<close> picks. \<open>interleaving\<close> is the order in which
  concurrently started tasks take effect. The remaining fields are declarations of other
  packages that the file uses and that are taken as parameters: the functions
  \<^verbatim>\<open>extractOSCFromSecret\<close>, \<^verbatim>\<open>computeOperatingSystemConfigChanges\<close> (which may read the
  filesystem) and \<^verbatim>\<open>extensionsv1alpha1helper.Decode\<close>, and the constants
  \<^verbatim>\<open>executor.AnnotationKeyChecksum\<close>, \<^verbatim>\<open>v1beta1constants.LabelWorkerKubernetesVersion\<close>
  and \<^verbatim>\<open>nodeagentv1alpha1.BaseDir\<close>.
\<close>

record 'osc reconciler =
  NodeName :: string
  KubernetesVersion :: string
  SyncPeriod :: nat
  fault :: "call list \<Rightarrow> call \<Rightarrow> err option"
  tempDirName :: "call list \<Rightarrow> path"
  interleaving :: "call list \<Rightarrow> nat list"
  extractOSCFromSecret :: "Secret \<Rightarrow> err + ('osc \<times> bytes \<times> string)"
  computeOperatingSystemConfigChanges :: "(path \<rightharpoonup> entry) \<Rightarrow> 'osc \<Rightarrow> err + operatingSystemConfigChanges"
  Decode :: "string \<Rightarrow> bytes \<Rightarrow> err + bytes"
  AnnotationKeyChecksum :: string
  LabelWorkerKubernetesVersion :: string
  BaseDir :: string

text \<open>Every call to a capability is appended to the trace; the environment decides
  whether it fails.\<close>

definition invoke :: "'osc reconciler \<Rightarrow> call \<Rightarrow> world \<Rightarrow> err option \<times> world" where
  "invoke r c w = (fault r (trace w) c, w\<lparr>trace := trace w @ [c]\<rparr>)"

subsection \<open>The filesystem capability\<close>

text \<open>
  The operations of \<^verbatim>\<open>afero.Afero\<close> that the reconciler uses, over a flat tree: a path
  holds a file (content and mode) or a directory. A call that the environment lets
  through behaves as on afero's in-memory filesystem: parents need not exist, a file that
  exists keeps its mode when it is overwritten, and a missing target is reported as
  \<open>ErrFileNotFound\<close> by \<^verbatim>\<open>ReadFile\<close>, \<^verbatim>\<open>Remove\<close>, \<^verbatim>\<open>Rename\<close> and \<^verbatim>\<open>Chmod\<close>.
  A call that fails changes nothing, and a failing \<^verbatim>\<open>ReadFile\<close> returns no content.
\<close>

definition FS_ReadFile_op :: "'osc reconciler \<Rightarrow> path \<Rightarrow> world \<Rightarrow> (bytes \<times> err option) \<times> world" where
  "FS_ReadFile_op r p w =
     (case invoke r (FS_ReadFile p) w of
        (Some e, w') \<Rightarrow> (([], Some e), w')
      | (None, w') \<Rightarrow>
          (case fs w' p of
             None \<Rightarrow> (([], Some ErrFileNotFound), w')
           | Some (Directory m) \<Rightarrow> (([], Some (ErrOther ''is a directory'')), w')
           | Some (RegularFile c m) \<Rightarrow> ((c, None), w')))"

definition FS_WriteFile_op :: "'osc reconciler \<Rightarrow> path \<Rightarrow> bytes \<Rightarrow> FileMode \<Rightarrow> world \<Rightarrow> err option \<times> world" where
  "FS_WriteFile_op r p d perm w =
     (case invoke r (FS_WriteFile p d perm) w of
        (Some e, w') \<Rightarrow> (Some e, w')
      | (None, w') \<Rightarrow>
          (case fs w' p of
             None \<Rightarrow> (None, w'\<lparr>fs := (fs w')(p \<mapsto> RegularFile d perm)\<rparr>)
           | Some (Directory m) \<Rightarrow> (Some (ErrOther ''is a directory''), w')
           | Some (RegularFile c m) \<Rightarrow> (None, w'\<lparr>fs := (fs w')(p \<mapsto> RegularFile d m)\<rparr>)))"

definition setMode :: "entry \<Rightarrow> FileMode \<Rightarrow> entry" where
  "setMode e m = (case e of RegularFile c m0 \<Rightarrow> RegularFile c m | Directory m0 \<Rightarrow> Directory m)"

definition FS_Chmod_op :: "'osc reconciler \<Rightarrow> path \<Rightarrow> FileMode \<Rightarrow> world \<Rightarrow> err option \<times> world" where
  "FS_Chmod_op r p perm w =
     (case invoke r (FS_Chmod p perm) w of
        (Some e, w') \<Rightarrow> (Some e, w')
      | (None, w') \<Rightarrow>
          (case fs w' p of
             None \<Rightarrow> (Some ErrFileNotFound, w')
           | Some e \<Rightarrow> (None, w'\<lparr>fs := (fs w')(p \<mapsto> setMode e perm)\<rparr>)))"

definition FS_Remove_op :: "'osc reconciler \<Rightarrow> path \<Rightarrow> world \<Rightarrow> err option \<times> world" where
  "FS_Remove_op r p w =
     (case invoke r (FS_Remove p) w of
        (Some e, w') \<Rightarrow> (Some e, w')
      | (None, w') \<Rightarrow>
          (case fs w' p of
             None \<Rightarrow> (Some ErrFileNotFound, w')
           | Some e \<Rightarrow> (None, w'\<lparr>fs := (fs w')(p := None)\<rparr>)))"

text \<open>\<^verbatim>\<open>RemoveAll\<close> removes the path and everything below it, and returns \<^verbatim>\<open>nil\<close> when
  the path does not exist.\<close>

definition below :: "path \<Rightarrow> path \<Rightarrow> bool" where
  "below d p = (p = d \<or> prefix (d @ ''/'') p)"

definition FS_RemoveAll_op :: "'osc reconciler \<Rightarrow> path \<Rightarrow> world \<Rightarrow> err option \<times> world" where
  "FS_RemoveAll_op r p w =
     (case invoke r (FS_RemoveAll p) w of
        (Some e, w') \<Rightarrow> (Some e, w')
      | (None, w') \<Rightarrow> (None, w'\<lparr>fs := (\<lambda>q. if below p q then None else fs w' q)\<rparr>))"

definition FS_MkdirAll_op :: "'osc reconciler \<Rightarrow> path \<Rightarrow> FileMode \<Rightarrow> world \<Rightarrow> err option \<times> world" where
  "FS_MkdirAll_op r p perm w =
     (case invoke r (FS_MkdirAll p perm) w of
        (Some e, w') \<Rightarrow> (Some e, w')
      | (None, w') \<Rightarrow>
          (case fs w' p of
             None \<Rightarrow> (None, w'\<lparr>fs := (fs w')(p \<mapsto> Directory perm)\<rparr>)
           | Some (Directory m) \<Rightarrow> (None, w')
           | Some (RegularFile c m) \<Rightarrow> (Some (ErrOther ''not a directory''), w')))"

definition FS_Rename_op :: "'osc reconciler \<Rightarrow> path \<Rightarrow> path \<Rightarrow> world \<Rightarrow> err option \<times> world" where
  "FS_Rename_op r old new w =
     (case invoke r (FS_Rename old new) w of
        (Some e, w') \<Rightarrow> (Some e, w')
      | (None, w') \<Rightarrow>
          (case fs w' old of
             None \<Rightarrow> (Some ErrFileNotFound, w')
           | Some e \<Rightarrow> (None, w'\<lparr>fs := ((fs w')(old := None))(new \<mapsto> e)\<rparr>)))"

definition FS_TempDir_op :: "'osc reconciler \<Rightarrow> string \<Rightarrow> string \<Rightarrow> world \<Rightarrow> (path \<times> err option) \<times> world" where
  "FS_TempDir_op r dir pattern w =
     (case invoke r (FS_TempDir dir pattern) w of
        (Some e, w') \<Rightarrow> (([], Some e), w')
      | (None, w') \<Rightarrow>
          (let name = tempDirName r (trace w)
           in ((name, None), w'\<lparr>fs := (fs w')(name \<mapsto> Directory 448)\<rparr>)))"

subsection \<open>The service manager and the API server\<close>

text \<open>
  The service manager is opaque: a call to it is an entry of the trace and a possible
  error. \<^verbatim>\<open>Client.Get\<close> reads the secret of the request and the node object from the
  world; \<^verbatim>\<open>Client.Patch\<close> stores the node object the reconciler changed.
\<close>

definition Client_Get_secret :: "'osc reconciler \<Rightarrow> world \<Rightarrow> (err + Secret) \<times> world" where
  "Client_Get_secret r w =
     (case invoke r Client_GetSecret w of
        (Some e, w') \<Rightarrow> (Inl e, w')
      | (None, w') \<Rightarrow>
          (case secret w' of None \<Rightarrow> (Inl ErrAPINotFound, w') | Some s \<Rightarrow> (Inr s, w')))"

definition Client_Get_node :: "'osc reconciler \<Rightarrow> world \<Rightarrow> (err + annotations) \<times> world" where
  "Client_Get_node r w =
     (case invoke r (Client_GetNode (NodeName r)) w of
        (Some e, w') \<Rightarrow> (Inl e, w')
      | (None, w') \<Rightarrow>
          (case node w' of None \<Rightarrow> (Inl ErrAPINotFound, w') | Some a \<Rightarrow> (Inr a, w')))"

definition Client_Patch_op :: "'osc reconciler \<Rightarrow> (string \<times> string) list \<Rightarrow> annotations \<Rightarrow> world \<Rightarrow> err option \<times> world" where
  "Client_Patch_op r kvs a w =
     (case invoke r (Client_Patch kvs) w of
        (Some e, w') \<Rightarrow> (Some e, w')
      | (None, w') \<Rightarrow>
          (case node w' of
             None \<Rightarrow> (Some ErrAPINotFound, w')
           | Some a0 \<Rightarrow> (None, w'\<lparr>node := Some a\<rparr>)))"

definition Recorder_Event_op :: "string \<Rightarrow> string \<Rightarrow> world \<Rightarrow> world" where
  "Recorder_Event_op reason msg w = w\<lparr>trace := trace w @ [Recorder_Event reason msg]\<rparr>"

text \<open>Reading a Go map: a missing key reads as the empty string.\<close>

definition annotation :: "annotations \<Rightarrow> string \<Rightarrow> string" where
  "annotation a k = (case a k of None \<Rightarrow> [] | Some v \<Rightarrow> v)"

subsection \<open>Paths and constants\<close>

text \<open>
  \<^verbatim>\<open>path.Join\<close>, \<^verbatim>\<open>filepath.Dir\<close> and \<^verbatim>\<open>filepath.Base\<close> on paths that are already
  clean (no \<^verbatim>\<open>.\<close>, \<^verbatim>\<open>..\<close> or doubled separators): the lexical cleaning of the
  library functions is left out.
\<close>

definition path_Join :: "path \<Rightarrow> string \<Rightarrow> path" where
  "path_Join a b = (if b = [] then a else a @ ''/'' @ b)"

definition filepath_Base :: "path \<Rightarrow> string" where
  "filepath_Base p =
     (if p = [] then ''.''
      else (let q = dropWhile (\<lambda>c. c = CHR ''/'') (rev p)
            in if q = [] then ''/'' else rev (takeWhile (\<lambda>c. c \<noteq> CHR ''/'') q)))"

definition filepath_Dir :: "path \<Rightarrow> path" where
  "filepath_Dir p =
     (let d = rev (dropWhile (\<lambda>c. c \<noteq> CHR ''/'') (rev p))
      in if d = [] then ''.''
         else (let c = rev (dropWhile (\<lambda>c. c = CHR ''/'') (rev d))
               in if c = [] then ''/'' else c))"

definition lastAppliedOperatingSystemConfigFilePath :: "'osc reconciler \<Rightarrow> path" where
  "lastAppliedOperatingSystemConfigFilePath r = BaseDir r @ ''/last-applied-osc.yaml''"

definition etcSystemdSystem :: path where
  "etcSystemdSystem = ''/etc/systemd/system''"

definition defaultFilePermissions :: FileMode where
  "defaultFilePermissions = 384"

text \<open>\<^verbatim>\<open>fs.ModeDir\<close>, the directory bit of a file mode.\<close>

definition ModeDir :: FileMode where
  "ModeDir = 2147483648"

text \<open>The error that \<^verbatim>\<open>err != nil && !errors.Is(err, afero.ErrFileNotFound)\<close> lets
  through, if any.\<close>

definition exceptNotFound :: "err option \<Rightarrow> err option" where
  "exceptNotFound res =
     (case res of None \<Rightarrow> None | Some e \<Rightarrow> if isErrFileNotFound e then None else Some e)"

subsection \<open>Phase 1: applyChangedFiles\<close>

fun applyChangedFiles_loop :: "'osc reconciler \<Rightarrow> path \<Rightarrow> File list \<Rightarrow> world \<Rightarrow> err option \<times> world" where
  "applyChangedFiles_loop r tmpDir [] w = (None, w)"
| "applyChangedFiles_loop r tmpDir (file # files) w =
     (case Inline file of
        None \<Rightarrow> applyChangedFiles_loop r tmpDir files w
      | Some inl \<Rightarrow>
          (case FS_MkdirAll_op r (filepath_Dir (Path file)) ModeDir w of
             (Some e, w1) \<Rightarrow>
               (Some (Wrap (''unable to create directory '' @ quoted (Path file)) e), w1)
           | (None, w1) \<Rightarrow>
               (let permissions = (case Permissions file of
                                     None \<Rightarrow> defaultFilePermissions
                                   | Some p \<Rightarrow> p)
                in case Decode r (Encoding inl) (Data inl) of
                     Inl e \<Rightarrow>
                       (Some (Wrap (''unable to decode data of file '' @ quoted (Path file)) e), w1)
                   | Inr data \<Rightarrow>
                       (let tmpFilePath = path_Join tmpDir (filepath_Base (Path file))
                        in case FS_WriteFile_op r tmpFilePath data permissions w1 of
                             (Some e, w2) \<Rightarrow>
                               (Some (Wrap (''unable to create temporary file '' @ quoted tmpFilePath) e), w2)
                           | (None, w2) \<Rightarrow>
                               (case FS_Rename_op r tmpFilePath (Path file) w2 of
                                  (Some e, w3) \<Rightarrow>
                                    (Some (Wrap (''unable to rename temporary file '' @ quoted tmpFilePath
                                             @ '' to '' @ quoted (Path file)) e), w3)
                                | (None, w3) \<Rightarrow> applyChangedFiles_loop r tmpDir files w3)))))"

text \<open>The deferred \<^verbatim>\<open>RemoveAll\<close> of the temporary directory runs on every return after
  the directory was created; its error goes to \<^verbatim>\<open>HandleError\<close> and is not returned.\<close>

definition applyChangedFiles :: "'osc reconciler \<Rightarrow> File list \<Rightarrow> world \<Rightarrow> err option \<times> world" where
  "applyChangedFiles r files w =
     (case FS_TempDir_op r [] ''gardener-node-agent-*'' w of
        ((tmpDir, Some e), w1) \<Rightarrow> (Some (Wrap ''unable to create temporary directory'' e), w1)
      | ((tmpDir, None), w1) \<Rightarrow>
          (case applyChangedFiles_loop r tmpDir files w1 of
             (res, w2) \<Rightarrow> (res, snd (FS_RemoveAll_op r tmpDir w2))))"

subsection \<open>Phase 6: removeDeletedFiles\<close>

fun removeDeletedFiles :: "'osc reconciler \<Rightarrow> File list \<Rightarrow> world \<Rightarrow> err option \<times> world" where
  "removeDeletedFiles r [] w = (None, w)"
| "removeDeletedFiles r (file # files) w =
     (case FS_Remove_op r (Path file) w of
        (res, w1) \<Rightarrow>
          (case exceptNotFound res of
             Some e \<Rightarrow>
               (Some (Wrap (''unable to delete no longer needed file '' @ quoted (Path file)) e), w1)
           | None \<Rightarrow> removeDeletedFiles r files w1))"

subsection \<open>Phase 2: applyChangedUnits\<close>

text \<open>The unit file: written when the desired content differs from the content read,
  then its permissions are set (source lines 225 to 243).\<close>

definition applyUnitFile :: "'osc reconciler \<Rightarrow> changedUnit \<Rightarrow> path \<Rightarrow> world \<Rightarrow> err option \<times> world" where
  "applyUnitFile r unit unitFilePath w =
     (case Content unit of
        None \<Rightarrow> (None, w)
      | Some content \<Rightarrow>
          (case FS_ReadFile_op r unitFilePath w of
             ((oldUnitContent, res), w1) \<Rightarrow>
               (case exceptNotFound res of
                  Some e \<Rightarrow>
                    (Some (Wrap (''unable to read existing unit file '' @ quoted unitFilePath
                             @ '' for '' @ quoted (Name unit)) e), w1)
                | None \<Rightarrow>
                    (case (if content \<noteq> oldUnitContent
                           then FS_WriteFile_op r unitFilePath content defaultFilePermissions w1
                           else (None, w1)) of
                       (Some e, w2) \<Rightarrow>
                         (Some (Wrap (''unable to write unit file '' @ quoted unitFilePath
                                  @ '' for '' @ quoted (Name unit)) e), w2)
                     | (None, w2) \<Rightarrow>
                         (case FS_Chmod_op r unitFilePath defaultFilePermissions w2 of
                            (Some e, w3) \<Rightarrow>
                              (Some (Wrap (''unable to ensure permissions for unit file ''
                                       @ quoted unitFilePath @ '' for '' @ quoted (Name unit)) e), w3)
                          | (None, w3) \<Rightarrow> (None, w3))))))"

text \<open>The loop over \<^verbatim>\<open>unit.dropIns.changed\<close> (source lines 256 to 276). The message of
  the last error names the unit file, as the source does.\<close>

fun applyChangedDropIns :: "'osc reconciler \<Rightarrow> changedUnit \<Rightarrow> path \<Rightarrow> path \<Rightarrow> DropIn list \<Rightarrow> world \<Rightarrow> err option \<times> world" where
  "applyChangedDropIns r unit unitFilePath dropInDirectory [] w = (None, w)"
| "applyChangedDropIns r unit unitFilePath dropInDirectory (dropIn # dropIns) w =
     (let dropInFilePath = path_Join dropInDirectory (DropInName dropIn)
      in case FS_ReadFile_op r dropInFilePath w of
           ((oldDropInContent, res), w1) \<Rightarrow>
             (case exceptNotFound res of
                Some e \<Rightarrow>
                  (Some (Wrap (''unable to read existing drop-in file '' @ quoted dropInFilePath
                           @ '' for unit '' @ quoted (Name unit)) e), w1)
              | None \<Rightarrow>
                  (case (if DropInContent dropIn \<noteq> oldDropInContent
                         then FS_WriteFile_op r dropInFilePath (DropInContent dropIn) defaultFilePermissions w1
                         else (None, w1)) of
                     (Some e, w2) \<Rightarrow>
                       (Some (Wrap (''unable to write drop-in file '' @ quoted dropInFilePath
                                @ '' for unit '' @ quoted (Name unit)) e), w2)
                   | (None, w2) \<Rightarrow>
                       (case FS_Chmod_op r dropInFilePath defaultFilePermissions w2 of
                          (Some e, w3) \<Rightarrow>
                            (Some (Wrap (''unable to ensure permissions for drop-in file ''
                                     @ quoted unitFilePath @ '' for unit '' @ quoted (Name unit)) e), w3)
                        | (None, w3) \<Rightarrow>
                            applyChangedDropIns r unit unitFilePath dropInDirectory dropIns w3))))"

text \<open>The loop over \<^verbatim>\<open>unit.dropIns.deleted\<close> (source lines 278 to 284).\<close>

fun removeDeletedDropIns :: "'osc reconciler \<Rightarrow> changedUnit \<Rightarrow> path \<Rightarrow> DropIn list \<Rightarrow> world \<Rightarrow> err option \<times> world" where
  "removeDeletedDropIns r unit dropInDirectory [] w = (None, w)"
| "removeDeletedDropIns r unit dropInDirectory (dropIn # dropIns) w =
     (let dropInFilePath = path_Join dropInDirectory (DropInName dropIn)
      in case FS_Remove_op r dropInFilePath w of
           (res, w1) \<Rightarrow>
             (case exceptNotFound res of
                Some e \<Rightarrow>
                  (Some (Wrap (''unable to delete drop-in file '' @ quoted dropInFilePath
                           @ '' for unit '' @ quoted (Name unit)) e), w1)
              | None \<Rightarrow> removeDeletedDropIns r unit dropInDirectory dropIns w1))"

text \<open>The drop-in directory of a unit (source lines 245 to 285).\<close>

definition applyUnitDropIns :: "'osc reconciler \<Rightarrow> changedUnit \<Rightarrow> path \<Rightarrow> world \<Rightarrow> err option \<times> world" where
  "applyUnitDropIns r unit unitFilePath w =
     (let dropInDirectory = unitFilePath @ ''.d''
      in if length (DropIns unit) = 0
         then (case FS_RemoveAll_op r dropInDirectory w of
                 (res, w1) \<Rightarrow>
                   (case exceptNotFound res of
                      Some e \<Rightarrow>
                        (Some (Wrap (''unable to delete systemd drop-in folder for unit ''
                                 @ quoted (Name unit)) e), w1)
                    | None \<Rightarrow> (None, w1)))
         else (case FS_MkdirAll_op r dropInDirectory ModeDir w of
                 (Some e, w1) \<Rightarrow>
                   (Some (Wrap (''unable to create drop-in directory '' @ quoted dropInDirectory
                            @ '' for unit '' @ quoted (Name unit)) e), w1)
               | (None, w1) \<Rightarrow>
                   (case applyChangedDropIns r unit unitFilePath dropInDirectory (dropInsChanged unit) w1 of
                      (Some e, w2) \<Rightarrow> (Some e, w2)
                    | (None, w2) \<Rightarrow>
                        removeDeletedDropIns r unit dropInDirectory (dropInsDeleted unit) w2)))"

text \<open>Enablement of a unit (source lines 287 to 297).\<close>

definition applyUnitEnablement :: "'osc reconciler \<Rightarrow> changedUnit \<Rightarrow> world \<Rightarrow> err option \<times> world" where
  "applyUnitEnablement r unit w =
     (if BoolDeref (Enable unit) True
      then (case invoke r (DBus_Enable (Name unit)) w of
              (Some e, w1) \<Rightarrow> (Some (Wrap (''unable to enable unit '' @ quoted (Name unit)) e), w1)
            | (None, w1) \<Rightarrow> (None, w1))
      else (case invoke r (DBus_Disable (Name unit)) w of
              (Some e, w1) \<Rightarrow> (Some (Wrap (''unable to disable unit '' @ quoted (Name unit)) e), w1)
            | (None, w1) \<Rightarrow> (None, w1)))"

fun applyChangedUnits :: "'osc reconciler \<Rightarrow> changedUnit list \<Rightarrow> world \<Rightarrow> err option \<times> world" where
  "applyChangedUnits r [] w = (None, w)"
| "applyChangedUnits r (unit # units) w =
     (let unitFilePath = path_Join etcSystemdSystem (Name unit)
      in case applyUnitFile r unit unitFilePath w of
           (Some e, w1) \<Rightarrow> (Some e, w1)
         | (None, w1) \<Rightarrow>
             (case applyUnitDropIns r unit unitFilePath w1 of
                (Some e, w2) \<Rightarrow> (Some e, w2)
              | (None, w2) \<Rightarrow>
                  (case applyUnitEnablement r unit w2 of
                     (Some e, w3) \<Rightarrow> (Some e, w3)
                   | (None, w3) \<Rightarrow> applyChangedUnits r units w3)))"

subsection \<open>Phase 3: removeDeletedUnits\<close>

fun removeDeletedUnits :: "'osc reconciler \<Rightarrow> annotations option \<Rightarrow> Unit list \<Rightarrow> world \<Rightarrow> err option \<times> world" where
  "removeDeletedUnits r nd [] w = (None, w)"
| "removeDeletedUnits r nd (unit # units) w =
     (case invoke r (DBus_Disable (Name unit)) w of
        (Some e, w1) \<Rightarrow>
          (Some (Wrap (''unable to disable deleted unit '' @ quoted (Name unit)) e), w1)
      | (None, w1) \<Rightarrow>
          (case invoke r (DBus_Stop (Name unit)) w1 of
             (Some e, w2) \<Rightarrow>
               (Some (Wrap (''unable to stop deleted unit '' @ quoted (Name unit)) e), w2)
           | (None, w2) \<Rightarrow>
               (case FS_Remove_op r (path_Join etcSystemdSystem (Name unit)) w2 of
                  (res3, w3) \<Rightarrow>
                    (case exceptNotFound res3 of
                       Some e \<Rightarrow>
                         (Some (Wrap (''unable to delete systemd unit file of deleted unit ''
                                  @ quoted (Name unit)) e), w3)
                     | None \<Rightarrow>
                         (case FS_RemoveAll_op r (path_Join etcSystemdSystem (Name unit @ ''.d'')) w3 of
                            (res4, w4) \<Rightarrow>
                              (case exceptNotFound res4 of
                                 Some e \<Rightarrow>
                                   (Some (Wrap (''unable to delete systemd drop-in folder of deleted unit ''
                                            @ quoted (Name unit)) e), w4)
                               | None \<Rightarrow> removeDeletedUnits r nd units w4))))))"

subsection \<open>Phase 5: executeUnitCommands\<close>

text \<open>
  Modelled from the spec: \<^verbatim>\<open>flow.Parallel\<close> (package \<^verbatim>\<open>pkg/utils/flow\<close>) is not
  among the sources. The spec says of it that the tasks are issued concurrently, that the
  join waits for all tasks regardless of individual failure, and that it then reports the
  first error, or none. Each task of the reconciler makes a single call, so a concurrent
  run is a run of all tasks in some order: \<open>taskOrder\<close> turns the list chosen by the
  environment into a permutation of the task indices.
\<close>

definition taskOrder :: "nat list \<Rightarrow> nat \<Rightarrow> nat list" where
  "taskOrder s n =
     (let s' = remdups (filter (\<lambda>i. i < n) s)
      in s' @ filter (\<lambda>i. i \<notin> set s') [0..<n])"

fun runAll :: "(world \<Rightarrow> err option \<times> world) list \<Rightarrow> world \<Rightarrow> err option list \<times> world" where
  "runAll [] w = ([], w)"
| "runAll (t # ts) w =
     (case t w of (res, w1) \<Rightarrow> (case runAll ts w1 of (rs, w2) \<Rightarrow> (res # rs, w2)))"

definition firstError :: "err option list \<Rightarrow> err option" where
  "firstError rs = (case filter (\<lambda>x. x \<noteq> None) rs of [] \<Rightarrow> None | x # xs \<Rightarrow> x)"

definition Parallel :: "'osc reconciler \<Rightarrow> (world \<Rightarrow> err option \<times> world) list \<Rightarrow> world \<Rightarrow> err option \<times> world" where
  "Parallel r fns w =
     (case runAll (map (\<lambda>i. fns ! i) (taskOrder (interleaving r (trace w)) (length fns))) w of
        (rs, w') \<Rightarrow> (firstError rs, w'))"

text \<open>The closure built for one unit (source lines 333 to 347).\<close>

definition unitCommandTask :: "'osc reconciler \<Rightarrow> annotations option \<Rightarrow> changedUnit \<Rightarrow> world \<Rightarrow> err option \<times> world" where
  "unitCommandTask r nd unit w =
     (if \<not> BoolDeref (Enable unit) True \<or> Command unit = Some CommandStop
      then (case invoke r (DBus_Stop (Name unit)) w of
              (Some e, w1) \<Rightarrow> (Some (Wrap (''unable to stop unit '' @ quoted (Name unit)) e), w1)
            | (None, w1) \<Rightarrow> (None, w1))
      else (case invoke r (DBus_Restart (Name unit)) w of
              (Some e, w1) \<Rightarrow> (Some (Wrap (''unable to restart unit '' @ quoted (Name unit)) e), w1)
            | (None, w1) \<Rightarrow> (None, w1)))"

definition executeUnitCommands :: "'osc reconciler \<Rightarrow> annotations option \<Rightarrow> changedUnit list \<Rightarrow> world \<Rightarrow> err option \<times> world" where
  "executeUnitCommands r nd units w = Parallel r (map (unitCommandTask r nd) units) w"

subsection \<open>Reconcile\<close>

text \<open>\<^verbatim>\<open>reconcile.Result\<close>, with durations in nanoseconds.\<close>

record Result =
  RequeueAfter :: nat

definition Second :: nat where
  "Second = 1000000000"

definition noRequeue :: Result where
  "noRequeue = \<lparr>RequeueAfter = 0\<rparr>"

text \<open>
  One pass, in three parts. \<open>Reconcile_fetch\<close> is the function up to the convergence
  gate (source lines 69 to 106): it either returns, or proceeds with the node (\<open>None\<close>
  for \<^verbatim>\<open>nil\<close>, when the API server does not find it), the raw configuration, its
  checksum and the computed changes. \<open>Reconcile_apply\<close> is the sequence of the six calls
  that apply the changes (source lines 108 to 136), and \<open>Reconcile_persist\<close> the rest of
  the function (source lines 138 to 160). The result is the pair that the Go function
  returns, with the world the pass leaves behind.
\<close>

datatype outcome =
    Return "Result \<times> err option"
  | Proceed "annotations option" bytes string operatingSystemConfigChanges

definition Reconcile_fetch :: "'osc reconciler \<Rightarrow> world \<Rightarrow> outcome \<times> world" where
  "Reconcile_fetch r w =
     (case Client_Get_secret r w of
        (Inl e, w1) \<Rightarrow>
          (if IsNotFound e then (Return (noRequeue, None), w1)
           else (Return (noRequeue, Some (Wrap ''error retrieving object from store'' e)), w1))
      | (Inr sec, w1) \<Rightarrow>
     (case Client_Get_node r w1 of
        (got, w2) \<Rightarrow>
     (case (case got of
              Inl e \<Rightarrow> if \<not> IsNotFound e
                       then Inl (Wrap (''unable to fetch node '' @ quoted (NodeName r)) e)
                       else Inr None
            | Inr a \<Rightarrow> Inr (Some a)) of
        Inl e \<Rightarrow> (Return (noRequeue, Some e), w2)
      | Inr nd \<Rightarrow>
     (case extractOSCFromSecret r sec of
        Inl e \<Rightarrow> (Return (noRequeue, Some e), w2)
      | Inr (osc, oscRaw, oscChecksum) \<Rightarrow>
     (case computeOperatingSystemConfigChanges r (fs w2) osc of
        Inl e \<Rightarrow> (Return (noRequeue, Some (Wrap ''unable to calculate the OSC changes'' e)), w2)
      | Inr oscChanges \<Rightarrow>
     (if (case nd of None \<Rightarrow> False
          | Some a \<Rightarrow> annotation a (AnnotationKeyChecksum r) = oscChecksum)
      then (Return (noRequeue, None), w2)
      else (Proceed nd oscRaw oscChecksum oscChanges, w2)))))))"

definition Reconcile_persist :: "'osc reconciler \<Rightarrow> annotations option \<Rightarrow> bytes \<Rightarrow> string \<Rightarrow> world \<Rightarrow> (Result \<times> err option) \<times> world" where
  "Reconcile_persist r nd oscRaw oscChecksum w8 =
     (case FS_WriteFile_op r (lastAppliedOperatingSystemConfigFilePath r) oscRaw 420 w8 of
        (Some e, w9) \<Rightarrow>
          ((noRequeue, Some (Wrap (''unable to write current OSC to file path ''
              @ quoted (lastAppliedOperatingSystemConfigFilePath r)) e)), w9)
      | (None, w9) \<Rightarrow>
     (case nd of
        None \<Rightarrow> ((\<lparr>RequeueAfter = 5 * Second\<rparr>, None), w9)
      | Some a \<Rightarrow>
          (let w10 = Recorder_Event_op ''OSCApplied''
                       ''Operating system config has been applied successfully'' w9;
               a1 = a(LabelWorkerKubernetesVersion r \<mapsto> KubernetesVersion r);
               a2 = a1(AnnotationKeyChecksum r \<mapsto> oscChecksum)
           in case Client_Patch_op r [(LabelWorkerKubernetesVersion r, KubernetesVersion r),
                                      (AnnotationKeyChecksum r, oscChecksum)] a2 w10 of
                (res, w11) \<Rightarrow> ((\<lparr>RequeueAfter = SyncPeriod r\<rparr>, res), w11))))"

definition Reconcile_apply :: "'osc reconciler \<Rightarrow> annotations option \<Rightarrow> bytes \<Rightarrow> string \<Rightarrow> operatingSystemConfigChanges \<Rightarrow> world \<Rightarrow> (Result \<times> err option) \<times> world" where
  "Reconcile_apply r nd oscRaw oscChecksum oscChanges w2 =
     (case applyChangedFiles r (filesChanged oscChanges) w2 of
        (Some e, w3) \<Rightarrow> ((noRequeue, Some (Wrap ''failed applying changed files'' e)), w3)
      | (None, w3) \<Rightarrow>
     (case applyChangedUnits r (unitsChanged oscChanges) w3 of
        (Some e, w4) \<Rightarrow> ((noRequeue, Some (Wrap ''failed applying changed units'' e)), w4)
      | (None, w4) \<Rightarrow>
     (case removeDeletedUnits r nd (unitsDeleted oscChanges) w4 of
        (Some e, w5) \<Rightarrow> ((noRequeue, Some (Wrap ''failed removing deleted units'' e)), w5)
      | (None, w5) \<Rightarrow>
     (case invoke r DBus_DaemonReload w5 of
        (Some e, w6) \<Rightarrow> ((noRequeue, Some (Wrap ''failed reloading systemd daemon'' e)), w6)
      | (None, w6) \<Rightarrow>
     (case executeUnitCommands r nd (unitsChanged oscChanges) w6 of
        (Some e, w7) \<Rightarrow> ((noRequeue, Some (Wrap ''failed executing unit commands'' e)), w7)
      | (None, w7) \<Rightarrow>
     (case removeDeletedFiles r (filesDeleted oscChanges) w7 of
        (Some e, w8) \<Rightarrow> ((noRequeue, Some (Wrap ''failed removing deleted files'' e)), w8)
      | (None, w8) \<Rightarrow> Reconcile_persist r nd oscRaw oscChecksum w8))))))"

definition Reconcile :: "'osc reconciler \<Rightarrow> world \<Rightarrow> (Result \<times> err option) \<times> world" where
  "Reconcile r w =
     (case Reconcile_fetch r w of
        (Return res, w2) \<Rightarrow> (res, w2)
      | (Proceed nd oscRaw oscChecksum oscChanges, w2) \<Rightarrow>
          Reconcile_apply r nd oscRaw oscChecksum oscChanges w2)"

subsection \<open>The apply engine of the specification\<close>

text \<open>
  The specification describes the apply engine as six phases executed strictly in order,
  each completing or failing fast before the next starts. \<open>applyEngine\<close> follows these
  words: it runs a list of phases in order and stops at the first that returns an error,
  which it reports with the phase. It is compared with \<open>Reconcile_apply\<close> below.
\<close>

datatype phase =
    WriteChangedFiles
  | WriteChangedUnits
  | RemoveDeletedUnits
  | ReloadDaemon
  | ExecuteUnitCommands
  | RemoveDeletedFiles

fun runPhase :: "'osc reconciler \<Rightarrow> annotations option \<Rightarrow> operatingSystemConfigChanges \<Rightarrow> phase \<Rightarrow> world \<Rightarrow> err option \<times> world" where
  "runPhase r nd ch WriteChangedFiles = applyChangedFiles r (filesChanged ch)"
| "runPhase r nd ch WriteChangedUnits = applyChangedUnits r (unitsChanged ch)"
| "runPhase r nd ch RemoveDeletedUnits = removeDeletedUnits r nd (unitsDeleted ch)"
| "runPhase r nd ch ReloadDaemon = invoke r DBus_DaemonReload"
| "runPhase r nd ch ExecuteUnitCommands = executeUnitCommands r nd (unitsChanged ch)"
| "runPhase r nd ch RemoveDeletedFiles = removeDeletedFiles r (filesDeleted ch)"

fun phaseContext :: "phase \<Rightarrow> string" where
  "phaseContext WriteChangedFiles = ''failed applying changed files''"
| "phaseContext WriteChangedUnits = ''failed applying changed units''"
| "phaseContext RemoveDeletedUnits = ''failed removing deleted units''"
| "phaseContext ReloadDaemon = ''failed reloading systemd daemon''"
| "phaseContext ExecuteUnitCommands = ''failed executing unit commands''"
| "phaseContext RemoveDeletedFiles = ''failed removing deleted files''"

fun applyEngine :: "'osc reconciler \<Rightarrow> annotations option \<Rightarrow> operatingSystemConfigChanges \<Rightarrow> phase list \<Rightarrow> world \<Rightarrow> (phase \<times> err) option \<times> world" where
  "applyEngine r nd ch [] w = (None, w)"
| "applyEngine r nd ch (p # ps) w =
     (case runPhase r nd ch p w of
        (Some e, w') \<Rightarrow> (Some (p, e), w')
      | (None, w') \<Rightarrow> applyEngine r nd ch ps w')"

definition sixPhases :: "phase list" where
  "sixPhases = [WriteChangedFiles, WriteChangedUnits, RemoveDeletedUnits, ReloadDaemon,
                ExecuteUnitCommands, RemoveDeletedFiles]"

subsection \<open>Vocabulary of the properties\<close>

text \<open>
  \<open>emits P w w'\<close>: the world \<open>w'\<close> comes from \<open>w\<close> by calls that all satisfy \<open>P\<close>, and
  the objects of the API server are the same.
\<close>

definition emits :: "(call \<Rightarrow> bool) \<Rightarrow> world \<Rightarrow> world \<Rightarrow> bool" where
  "emits P w w' \<longleftrightarrow>
     (\<exists>t. trace w' = trace w @ t \<and> list_all P t) \<and> node w' = node w \<and> secret w' = secret w"

text \<open>The calls that the phase writing files can make.\<close>

fun filePhaseCall :: "call \<Rightarrow> bool" where
  "filePhaseCall (FS_TempDir d p) = True"
| "filePhaseCall (FS_MkdirAll p m) = True"
| "filePhaseCall (FS_WriteFile p d m) = True"
| "filePhaseCall (FS_Rename p q) = True"
| "filePhaseCall (FS_RemoveAll p) = True"
| "filePhaseCall c = False"

text \<open>The calls that the phase writing units can make; a write and a change of mode
  carry the default permissions.\<close>

fun unitPhaseCall :: "call \<Rightarrow> bool" where
  "unitPhaseCall (FS_ReadFile p) = True"
| "unitPhaseCall (FS_WriteFile p d m) = (m = defaultFilePermissions)"
| "unitPhaseCall (FS_Chmod p m) = (m = defaultFilePermissions)"
| "unitPhaseCall (FS_RemoveAll p) = True"
| "unitPhaseCall (FS_MkdirAll p m) = True"
| "unitPhaseCall (FS_Remove p) = True"
| "unitPhaseCall (DBus_Enable n) = True"
| "unitPhaseCall (DBus_Disable n) = True"
| "unitPhaseCall c = False"



text \<open>The calls that remove one deleted unit, in the order of the specification:
  disable, stop, remove the unit file, remove the drop-in directory.\<close>

definition unitRemovalCalls :: "Unit \<Rightarrow> call list" where
  "unitRemovalCalls u =
     [DBus_Disable (Name u), DBus_Stop (Name u),
      FS_Remove (path_Join etcSystemdSystem (Name u)),
      FS_RemoveAll (path_Join etcSystemdSystem (Name u @ ''.d''))]"

text \<open>The command of a changed unit in the words of the specification: stop when the
  unit is disabled (\<open>Enable\<close> explicitly false) or its explicit command is Stop, restart
  otherwise.\<close>

definition commandFor :: "changedUnit \<Rightarrow> call" where
  "commandFor u =
     (if Enable u = Some False \<or> Command u = Some CommandStop
      then DBus_Stop (Name u) else DBus_Restart (Name u))"

fun commandContext :: "call \<Rightarrow> string" where
  "commandContext (DBus_Stop n) = ''unable to stop unit '' @ quoted n"
| "commandContext (DBus_Restart n) = ''unable to restart unit '' @ quoted n"
| "commandContext c = []"

text \<open>The results of a sequence of commands issued after the history \<open>h\<close>: what the
  environment answers to each, wrapped as the task wraps it.\<close>

fun commandResults :: "'osc reconciler \<Rightarrow> call list \<Rightarrow> call list \<Rightarrow> err option list" where
  "commandResults r h [] = []"
| "commandResults r h (c # cs) =
     map_option (Wrap (commandContext c)) (fault r h c) # commandResults r (h @ [c]) cs"

text \<open>The units in the order in which their tasks take effect.\<close>

definition scheduled :: "'osc reconciler \<Rightarrow> changedUnit list \<Rightarrow> world \<Rightarrow> changedUnit list" where
  "scheduled r units w = map (\<lambda>i. units ! i) (taskOrder (interleaving r (trace w)) (length units))"

text \<open>
  The calls of a phase that ran to its end (\<open>phaseCalls\<close>) and of a phase that may have
  stopped at an error (\<open>phaseCallsPartial\<close>). The removal phases stop at the failing call,
  so a partial run is a prefix of the full one; the command phase runs every command.
\<close>

fun phaseCalls :: "operatingSystemConfigChanges \<Rightarrow> phase \<Rightarrow> call list \<Rightarrow> bool" where
  "phaseCalls ch WriteChangedFiles t = list_all filePhaseCall t"
| "phaseCalls ch WriteChangedUnits t = list_all unitPhaseCall t"
| "phaseCalls ch RemoveDeletedUnits t = (t = concat (map unitRemovalCalls (unitsDeleted ch)))"
| "phaseCalls ch ReloadDaemon t = (t = [DBus_DaemonReload])"
| "phaseCalls ch ExecuteUnitCommands t = (mset t = mset (map commandFor (unitsChanged ch)))"
| "phaseCalls ch RemoveDeletedFiles t = (t = map (\<lambda>f. FS_Remove (Path f)) (filesDeleted ch))"

fun phaseCallsPartial :: "operatingSystemConfigChanges \<Rightarrow> phase \<Rightarrow> call list \<Rightarrow> bool" where
  "phaseCallsPartial ch RemoveDeletedUnits t = prefix t (concat (map unitRemovalCalls (unitsDeleted ch)))"
| "phaseCallsPartial ch RemoveDeletedFiles t = prefix t (map (\<lambda>f. FS_Remove (Path f)) (filesDeleted ch))"
| "phaseCallsPartial ch p t = phaseCalls ch p t"

subsection \<open>A concrete node\<close>

text \<open>
  A reconciler whose environment never fails, a set of changes with a changed and a
  deleted file, two changed units and a deleted unit, and a world in which the unit file
  of \<^verbatim>\<open>foo.service\<close> is on disk with the desired content and the mode 0644. The
  properties below are instantiated on them.
\<close>

definition exUnit :: changedUnit where
  "exUnit = \<lparr>Name = ''foo.service'', Command = None, Enable = Some False, Content = Some ''X'',
             DropIns = [], dropInsChanged = [], dropInsDeleted = []\<rparr>"

definition exDropIn :: DropIn where
  "exDropIn = \<lparr>DropInName = ''10-env.conf'', DropInContent = ''E''\<rparr>"

definition exUnit2 :: changedUnit where
  "exUnit2 = \<lparr>Name = ''web.service'', Command = Some CommandStart, Enable = None, Content = Some ''Y'',
              DropIns = [exDropIn], dropInsChanged = [exDropIn], dropInsDeleted = []\<rparr>"

definition exChanges :: operatingSystemConfigChanges where
  "exChanges =
     \<lparr>filesChanged = [\<lparr>Path = ''/etc/app.conf'', Permissions = None,
                        Inline = Some \<lparr>Encoding = [], Data = ''a=1''\<rparr>\<rparr>],
      filesDeleted = [\<lparr>Path = ''/etc/old.conf'', Permissions = None, Inline = None\<rparr>],
      unitsChanged = [exUnit, exUnit2],
      unitsDeleted = [\<lparr>Name = ''bar.service'', Command = None, Enable = None, Content = None,
                        DropIns = []\<rparr>]\<rparr>"

definition exReconciler :: "unit reconciler" where
  "exReconciler =
     \<lparr>NodeName = ''node-1'', KubernetesVersion = ''1.27.3'', SyncPeriod = 60 * Second,
      fault = (\<lambda>h c. None),
      tempDirName = (\<lambda>h. ''/tmp/gardener-node-agent-1''),
      interleaving = (\<lambda>h. [1, 0]),
      extractOSCFromSecret = (\<lambda>s. Inr ((), ''raw'', ''c1'')),
      computeOperatingSystemConfigChanges = (\<lambda>f osc. Inr exChanges),
      Decode = (\<lambda>enc d. Inr d),
      AnnotationKeyChecksum = ''checksum/cloud-config-data'',
      LabelWorkerKubernetesVersion = ''worker.gardener.cloud/kubernetes-version'',
      BaseDir = ''/var/lib/gardener-node-agent''\<rparr>"

definition exWorld :: world where
  "exWorld =
     \<lparr>fs = [''/etc/systemd/system/foo.service'' \<mapsto> RegularFile ''X'' 420],
      secret = Some [''osc.yaml'' \<mapsto> ''raw''],
      node = Some Map.empty,
      trace = []\<rparr>"

text \<open>Variants: an environment in which stopping \<^verbatim>\<open>foo.service\<close> fails, one in which
  the daemon reload fails, one in which the change computation fails, one that computes
  no changes; a world whose node carries the checksum of the configuration, and a world
  whose node is not registered.\<close>

definition exFaulty :: "unit reconciler" where
  "exFaulty = exReconciler\<lparr>fault := (\<lambda>h c. if c = DBus_Stop ''foo.service''
                                              then Some (ErrOther ''timeout'') else None)\<rparr>"

definition exReloadFails :: "unit reconciler" where
  "exReloadFails = exReconciler\<lparr>fault := (\<lambda>h c. if c = DBus_DaemonReload
                                              then Some (ErrOther ''dbus down'') else None)\<rparr>"

definition exComputeFails :: "unit reconciler" where
  "exComputeFails = exReconciler\<lparr>computeOperatingSystemConfigChanges :=
                                   (\<lambda>f osc. Inl (ErrOther ''cannot decode last applied OSC''))\<rparr>"

definition exConverged :: world where
  "exConverged = exWorld\<lparr>node := Some [''checksum/cloud-config-data'' \<mapsto> ''c1'']\<rparr>"

definition exUnregistered :: world where
  "exUnregistered = exWorld\<lparr>node := None\<rparr>"

definition exNoChanges :: operatingSystemConfigChanges where
  "exNoChanges = \<lparr>filesChanged = [], filesDeleted = [], unitsChanged = [], unitsDeleted = []\<rparr>"

definition exIdle :: "unit reconciler" where
  "exIdle = exReconciler\<lparr>computeOperatingSystemConfigChanges := (\<lambda>f osc. Inr exNoChanges)\<rparr>"

section \<open>Properties\<close>

subsection \<open>Every step appends to the trace and leaves the API objects alone\<close>

lemma emits_refl: "emits P w w"
  by (simp add: emits_def)

lemma emits_trans: "emits P w w1 \<Longrightarrow> emits P w1 w2 \<Longrightarrow> emits P w w2"
  by (auto simp: emits_def)


lemma frame_invoke: "invoke r c w = (res, w') \<Longrightarrow> trace w' = trace w @ [c] \<and> node w' = node w \<and> secret w' = secret w"
  by (auto simp: invoke_def)
lemma frame_ReadFile: "FS_ReadFile_op r p w = (res, w') \<Longrightarrow> trace w' = trace w @ [FS_ReadFile p] \<and> node w' = node w \<and> secret w' = secret w"
  by (auto simp: FS_ReadFile_op_def invoke_def split: option.splits entry.splits)
lemma frame_WriteFile: "FS_WriteFile_op r p d m w = (res, w') \<Longrightarrow> trace w' = trace w @ [FS_WriteFile p d m] \<and> node w' = node w \<and> secret w' = secret w"
  by (auto simp: FS_WriteFile_op_def invoke_def split: option.splits entry.splits)
lemma frame_Chmod: "FS_Chmod_op r p m w = (res, w') \<Longrightarrow> trace w' = trace w @ [FS_Chmod p m] \<and> node w' = node w \<and> secret w' = secret w"
  by (auto simp: FS_Chmod_op_def invoke_def split: option.splits entry.splits)
lemma frame_Remove: "FS_Remove_op r p w = (res, w') \<Longrightarrow> trace w' = trace w @ [FS_Remove p] \<and> node w' = node w \<and> secret w' = secret w"
  by (auto simp: FS_Remove_op_def invoke_def split: option.splits entry.splits)
lemma frame_RemoveAll: "FS_RemoveAll_op r p w = (res, w') \<Longrightarrow> trace w' = trace w @ [FS_RemoveAll p] \<and> node w' = node w \<and> secret w' = secret w"
  by (auto simp: FS_RemoveAll_op_def invoke_def split: option.splits entry.splits)
lemma frame_MkdirAll: "FS_MkdirAll_op r p m w = (res, w') \<Longrightarrow> trace w' = trace w @ [FS_MkdirAll p m] \<and> node w' = node w \<and> secret w' = secret w"
  by (auto simp: FS_MkdirAll_op_def invoke_def split: option.splits entry.splits)
lemma frame_Rename: "FS_Rename_op r p q w = (res, w') \<Longrightarrow> trace w' = trace w @ [FS_Rename p q] \<and> node w' = node w \<and> secret w' = secret w"
  by (auto simp: FS_Rename_op_def invoke_def split: option.splits entry.splits)
lemma frame_TempDir: "FS_TempDir_op r d p w = (res, w') \<Longrightarrow> trace w' = trace w @ [FS_TempDir d p] \<and> node w' = node w \<and> secret w' = secret w"
  by (auto simp: FS_TempDir_op_def invoke_def Let_def split: option.splits entry.splits)

lemmas frames = frame_invoke frame_ReadFile frame_WriteFile frame_Chmod frame_Remove frame_RemoveAll
  frame_MkdirAll frame_Rename frame_TempDir

lemma emits_applyChangedFiles_loop:
  "applyChangedFiles_loop r tmp files w = (res, w') \<Longrightarrow> emits filePhaseCall w w'"
  by (induction files arbitrary: w)
     (fastforce simp: emits_def Let_def split: option.splits prod.splits sum.splits dest!: frames)+

lemma emits_applyChangedFiles:
  "applyChangedFiles r files w = (res, w') \<Longrightarrow> emits filePhaseCall w w'"
  by (cases "FS_RemoveAll_op r (fst (fst (FS_TempDir_op r [] ''gardener-node-agent-*'' w))) (snd (applyChangedFiles_loop r (fst (fst (FS_TempDir_op r [] ''gardener-node-agent-*'' w))) files (snd (FS_TempDir_op r [] ''gardener-node-agent-*'' w))))")
   (auto simp: applyChangedFiles_def emits_def split: option.splits prod.splits sum.splits dest!: frames emits_applyChangedFiles_loop)

lemma emits_applyUnitFile:
  "applyUnitFile r unit p w = (res, w') \<Longrightarrow> emits unitPhaseCall w w'"
  by (fastforce simp: applyUnitFile_def emits_def split: option.splits prod.splits if_splits dest!: frames)

lemma emits_applyChangedDropIns:
  "applyChangedDropIns r unit ufp dir ds w = (res, w') \<Longrightarrow> emits unitPhaseCall w w'"
  by (induction ds arbitrary: w)
     (fastforce simp: emits_def Let_def split: option.splits prod.splits if_splits dest!: frames)+

lemma emits_removeDeletedDropIns:
  "removeDeletedDropIns r unit dir ds w = (res, w') \<Longrightarrow> emits unitPhaseCall w w'"
  by (induction ds arbitrary: w)
     (fastforce simp: emits_def Let_def split: option.splits prod.splits if_splits dest!: frames)+

lemma emits_applyUnitDropIns:
  "applyUnitDropIns r unit ufp w = (res, w') \<Longrightarrow> emits unitPhaseCall w w'"
  by (fastforce simp: applyUnitDropIns_def emits_def Let_def split: option.splits prod.splits if_splits
      dest!: frames emits_applyChangedDropIns emits_removeDeletedDropIns)

lemma emits_applyUnitEnablement:
  "applyUnitEnablement r unit w = (res, w') \<Longrightarrow> emits unitPhaseCall w w'"
  by (fastforce simp: applyUnitEnablement_def emits_def split: option.splits prod.splits if_splits dest!: frames)

lemma emits_applyChangedUnits:
  "applyChangedUnits r units w = (res, w') \<Longrightarrow> emits unitPhaseCall w w'"
proof (induction units arbitrary: w)
  case Nil
  then show ?case by (simp add: emits_refl)
next
  case (Cons u us)
  let ?p = "path_Join etcSystemdSystem (Name u)"
  obtain r1 w1 where a: "applyUnitFile r u ?p w = (r1, w1)" by (cases "applyUnitFile r u ?p w")
  obtain r2 w2 where b: "applyUnitDropIns r u ?p w1 = (r2, w2)" by (cases "applyUnitDropIns r u ?p w1")
  obtain r3 w3 where c: "applyUnitEnablement r u w2 = (r3, w3)" by (cases "applyUnitEnablement r u w2")
  note e1 = emits_applyUnitFile[OF a]
  note e2 = emits_trans[OF e1 emits_applyUnitDropIns[OF b]]
  note e3 = emits_trans[OF e2 emits_applyUnitEnablement[OF c]]
  show ?case
  proof (cases r1)
    case (Some e) with Cons.prems a e1 show ?thesis by (simp add: Let_def)
  next
    case None note r1 = this
    show ?thesis
    proof (cases r2)
      case (Some e) with Cons.prems a b r1 e2 show ?thesis by (simp add: Let_def)
    next
      case None note r2 = this
      show ?thesis
      proof (cases r3)
        case (Some e) with Cons.prems a b c r1 r2 e3 show ?thesis by (simp add: Let_def)
      next
        case None
        with Cons.prems a b c r1 r2 have "applyChangedUnits r us w3 = (res, w')" by (simp add: Let_def)
        from emits_trans[OF e3 Cons.IH[OF this]] show ?thesis .
      qed
    qed
  qed
qed

lemma removeDeletedUnits_trace:
  "removeDeletedUnits r nd units w = (res, w') \<Longrightarrow>
     (\<exists>t. trace w' = trace w @ t \<and> prefix t (concat (map unitRemovalCalls units))
        \<and> (res = None \<longrightarrow> t = concat (map unitRemovalCalls units)))
     \<and> node w' = node w \<and> secret w' = secret w"
  by (induction units arbitrary: w)
     (fastforce simp: unitRemovalCalls_def split: option.splits prod.splits if_splits dest!: frames)+

lemma removeDeletedFiles_trace:
  "removeDeletedFiles r files w = (res, w') \<Longrightarrow>
     (\<exists>t. trace w' = trace w @ t \<and> prefix t (map (\<lambda>f. FS_Remove (Path f)) files)
        \<and> (res = None \<longrightarrow> t = map (\<lambda>f. FS_Remove (Path f)) files))
     \<and> node w' = node w \<and> secret w' = secret w"
  by (induction files arbitrary: w)
     (fastforce split: option.splits prod.splits if_splits dest!: frames)+

subsection \<open>The unit commands run in some order, all of them\<close>

lemma commandFor_code:
  "(if \<not> BoolDeref (Enable u) True \<or> Command u = Some CommandStop
    then DBus_Stop (Name u) else DBus_Restart (Name u)) = commandFor u"
  by (cases "Enable u") (auto simp: BoolDeref_def commandFor_def)

lemma unitCommandTask_eq:
  "unitCommandTask r nd u w =
     (map_option (Wrap (commandContext (commandFor u))) (fault r (trace w) (commandFor u)),
      w\<lparr>trace := trace w @ [commandFor u]\<rparr>)"
  by (cases "Enable u")
     (auto simp: unitCommandTask_def invoke_def commandFor_def BoolDeref_def split: option.splits)

lemma runAll_tasks:
  "runAll (map (unitCommandTask r nd) us) w =
     (commandResults r (trace w) (map commandFor us), w\<lparr>trace := trace w @ map commandFor us\<rparr>)"
  by (induction us arbitrary: w) (simp_all add: unitCommandTask_eq)

lemma taskOrder_set: "set (taskOrder s n) = {0..<n}"
  by (auto simp: taskOrder_def Let_def)

lemma taskOrder_distinct: "distinct (taskOrder s n)"
  by (auto simp: taskOrder_def Let_def)

lemma taskOrder_mset: "mset (taskOrder s n) = mset [0..<n]"
  using taskOrder_set[of s n] taskOrder_distinct[of s n]
  by (metis distinct_upt set_eq_iff_mset_eq_distinct set_upt)

lemma taskOrder_nth_map:
  "map (\<lambda>i. map f xs ! i) (taskOrder s (length xs)) = map f (map (\<lambda>i. xs ! i) (taskOrder s (length xs)))"
  using taskOrder_set[of s "length xs"] by auto

lemma taskOrder_units_mset:
  "mset (map (\<lambda>i. xs ! i) (taskOrder s (length xs))) = mset xs"
proof -
  have "mset (map (\<lambda>i. xs ! i) (taskOrder s (length xs))) = image_mset (\<lambda>i. xs ! i) (mset (taskOrder s (length xs)))"
    by simp
  also have "\<dots> = image_mset (\<lambda>i. xs ! i) (mset [0..<length xs])" by (simp only: taskOrder_mset)
  also have "\<dots> = mset (map (\<lambda>i. xs ! i) [0..<length xs])" by simp
  also have "\<dots> = mset xs" by (simp only: map_nth)
  finally show ?thesis .
qed

lemma executeUnitCommands_eq:
  "executeUnitCommands r nd units w =
     (firstError (commandResults r (trace w) (map commandFor (scheduled r units w))),
      w\<lparr>trace := trace w @ map commandFor (scheduled r units w)\<rparr>)"
proof -
  have "map (\<lambda>i. map (unitCommandTask r nd) units ! i) (taskOrder (interleaving r (trace w)) (length units))
        = map (unitCommandTask r nd) (scheduled r units w)"
    unfolding scheduled_def by (rule taskOrder_nth_map)
  then show ?thesis
    unfolding executeUnitCommands_def Parallel_def
    by (simp only: length_map runAll_tasks prod.case)
qed

lemma scheduled_mset: "mset (scheduled r units w) = mset units"
  unfolding scheduled_def by (rule taskOrder_units_mset)

lemma executeUnitCommands_trace:
  "executeUnitCommands r nd units w = (res, w') \<Longrightarrow>
     (\<exists>t. trace w' = trace w @ t \<and> mset t = mset (map commandFor units))
     \<and> node w' = node w \<and> secret w' = secret w"
proof -
  assume a: "executeUnitCommands r nd units w = (res, w')"
  have "mset (map commandFor (scheduled r units w)) = mset (map commandFor units)"
    using scheduled_mset[of r units w] by (metis mset_map)
  with a show ?thesis by (auto simp: executeUnitCommands_eq)
qed

lemma firstError_None: "firstError rs = None \<longleftrightarrow> (\<forall>i<length rs. rs ! i = None)"
proof (induction rs)
  case Nil
  then show ?case by (simp add: firstError_def)
next
  case (Cons x xs)
  then show ?case
    by (cases x) (auto simp: firstError_def nth_Cons split: nat.splits list.splits)
qed

lemma firstError_first:
  "i < length rs \<Longrightarrow> rs ! i = Some e \<Longrightarrow> (\<forall>j<i. rs ! j = None) \<Longrightarrow> firstError rs = Some e"
proof (induction rs arbitrary: i)
  case Nil
  then show ?case by simp
next
  case (Cons x xs)
  show ?case
  proof (cases i)
    case 0
    with Cons.prems show ?thesis by (simp add: firstError_def)
  next
    case (Suc k)
    with Cons.prems have "x = None" by auto
    moreover from Suc Cons.prems have "firstError xs = Some e"
      by (intro Cons.IH[of k]) auto
    ultimately show ?thesis by (simp add: firstError_def)
  qed
qed

lemma commandResults_length: "length (commandResults r h cs) = length cs"
  by (induction cs arbitrary: h) simp_all

lemma commandResults_nth:
  "i < length cs \<Longrightarrow>
     commandResults r h cs ! i = map_option (Wrap (commandContext (cs ! i))) (fault r (h @ take i cs) (cs ! i))"
proof (induction cs arbitrary: h i)
  case Nil
  then show ?case by simp
next
  case (Cons c cs)
  then show ?case by (cases i) simp_all
qed

subsection \<open>The calls of the phases and of the engine\<close>

lemma runPhase_calls:
  "runPhase r nd ch p w = (res, w') \<Longrightarrow>
     (\<exists>t. trace w' = trace w @ t \<and> phaseCallsPartial ch p t \<and> (res = None \<longrightarrow> phaseCalls ch p t))
     \<and> node w' = node w \<and> secret w' = secret w"
proof (cases p)
  case WriteChangedFiles
  assume "runPhase r nd ch p w = (res, w')"
  with WriteChangedFiles show ?thesis using emits_applyChangedFiles[of r "filesChanged ch" w res w'] by (auto simp: emits_def)
next
  case WriteChangedUnits
  assume "runPhase r nd ch p w = (res, w')"
  with WriteChangedUnits show ?thesis
    using emits_applyChangedUnits[of r "unitsChanged ch" w res w'] by (auto simp: emits_def)
next
  case RemoveDeletedUnits
  assume "runPhase r nd ch p w = (res, w')"
  with RemoveDeletedUnits show ?thesis
    using removeDeletedUnits_trace[of r nd "unitsDeleted ch" w res w'] by auto
next
  case ReloadDaemon
  assume "runPhase r nd ch p w = (res, w')"
  with ReloadDaemon show ?thesis by (auto dest!: frame_invoke)
next
  case ExecuteUnitCommands
  assume "runPhase r nd ch p w = (res, w')"
  with ExecuteUnitCommands show ?thesis
    using executeUnitCommands_trace[of r nd "unitsChanged ch" w res w'] by auto
next
  case RemoveDeletedFiles
  assume "runPhase r nd ch p w = (res, w')"
  with RemoveDeletedFiles show ?thesis
    using removeDeletedFiles_trace[of r "filesDeleted ch" w res w'] by auto
qed

lemma applyEngine_calls:
  "applyEngine r nd ch ps w = (res, w') \<Longrightarrow>
     (case res of
        None \<Rightarrow> \<exists>ts. list_all2 (phaseCalls ch) ps ts \<and> trace w' = trace w @ concat ts
      | Some (p, e) \<Rightarrow>
          \<exists>ps1 ps2 ts1 t. ps = ps1 @ p # ps2 \<and> list_all2 (phaseCalls ch) ps1 ts1
             \<and> phaseCallsPartial ch p t \<and> trace w' = trace w @ concat ts1 @ t)
     \<and> node w' = node w \<and> secret w' = secret w"
proof (induction ps arbitrary: w)
  case Nil
  then show ?case by simp
next
  case (Cons q qs)
  obtain r1 w1 where step: "runPhase r nd ch q w = (r1, w1)" by (cases "runPhase r nd ch q w")
  from runPhase_calls[OF step] obtain t where
    t: "trace w1 = trace w @ t" "phaseCallsPartial ch q t" "r1 = None \<longrightarrow> phaseCalls ch q t"
    and fr: "node w1 = node w" "secret w1 = secret w" by blast
  show ?case
  proof (cases r1)
    case (Some e)
    with Cons.prems step have res: "res = Some (q, e)" "w' = w1" by simp_all
    have "q # qs = [] @ q # qs \<and> list_all2 (phaseCalls ch) [] [] \<and> phaseCallsPartial ch q t
            \<and> trace w1 = trace w @ concat [] @ t"
      using t by simp
    then have "\<exists>ps1 ps2 ts1 t. q # qs = ps1 @ q # ps2 \<and> list_all2 (phaseCalls ch) ps1 ts1
             \<and> phaseCallsPartial ch q t \<and> trace w1 = trace w @ concat ts1 @ t"
      by blast
    with res fr show ?thesis by simp
  next
    case None
    with Cons.prems step have rest: "applyEngine r nd ch qs w1 = (res, w')" by simp
    note ih = Cons.IH[OF rest]
    from None t have tq: "phaseCalls ch q t" by simp
    show ?thesis
    proof (cases res)
      case None
      with ih obtain ts where "list_all2 (phaseCalls ch) qs ts" "trace w' = trace w1 @ concat ts"
        by auto
      with tq t have "list_all2 (phaseCalls ch) (q # qs) (t # ts) \<and> trace w' = trace w @ concat (t # ts)"
        by simp
      then have "\<exists>ts. list_all2 (phaseCalls ch) (q # qs) ts \<and> trace w' = trace w @ concat ts"
        by blast
      with None ih fr show ?thesis by simp
    next
      case (Some pe)
      obtain p e where pe: "pe = (p, e)" by (cases pe)
      with Some ih obtain ps1 ps2 ts1 t' where
        d: "qs = ps1 @ p # ps2" "list_all2 (phaseCalls ch) ps1 ts1" "phaseCallsPartial ch p t'"
           "trace w' = trace w1 @ concat ts1 @ t'"
        by auto
      with tq t have "q # qs = (q # ps1) @ p # ps2 \<and> list_all2 (phaseCalls ch) (q # ps1) (t # ts1)
            \<and> phaseCallsPartial ch p t' \<and> trace w' = trace w @ concat (t # ts1) @ t'"
        by simp
      then have "\<exists>ps1 ps2 ts1 t. q # qs = ps1 @ p # ps2 \<and> list_all2 (phaseCalls ch) ps1 ts1
             \<and> phaseCallsPartial ch p t \<and> trace w' = trace w @ concat ts1 @ t"
        by blast
      with Some pe ih fr show ?thesis by simp
    qed
  qed
qed

lemma Reconcile_apply_engine:
  "Reconcile_apply r nd raw cks ch w =
     (case applyEngine r nd ch sixPhases w of
        (Some (p, e), w') \<Rightarrow> ((noRequeue, Some (Wrap (phaseContext p) e)), w')
      | (None, w8) \<Rightarrow> Reconcile_persist r nd raw cks w8)"
  by (simp add: Reconcile_apply_def sixPhases_def split: prod.splits option.splits)

lemma Reconcile_fetch_Proceed:
  "Reconcile_fetch r w = (Proceed nd raw cks ch, w0) \<Longrightarrow>
     trace w0 = trace w @ [Client_GetSecret, Client_GetNode (NodeName r)]
     \<and> node w0 = node w \<and> secret w0 = secret w \<and> fs w0 = fs w"
  by (auto simp: Reconcile_fetch_def Client_Get_secret_def Client_Get_node_def invoke_def
      split: prod.splits option.splits sum.splits if_splits)

lemma Reconcile_persist_trace:
  "Reconcile_persist r nd raw cks w = (res, w') \<Longrightarrow>
     \<exists>t. trace w' = trace w @ FS_WriteFile (lastAppliedOperatingSystemConfigFilePath r) raw 420 # t"
  by (auto simp: Reconcile_persist_def Recorder_Event_op_def Client_Patch_op_def invoke_def Let_def
      split: prod.splits option.splits dest!: frame_WriteFile)

subsection \<open>Reconcile and the engine of the specification\<close>

lemma Reconcile_Proceed:
  "Reconcile_fetch r w = (Proceed nd raw cks ch, w0) \<Longrightarrow>
     Reconcile r w =
       (case applyEngine r nd ch sixPhases w0 of
          (Some (p, e), w') \<Rightarrow> ((noRequeue, Some (Wrap (phaseContext p) e)), w')
        | (None, w8) \<Rightarrow> Reconcile_persist r nd raw cks w8)"
  by (simp add: Reconcile_def Reconcile_apply_engine)

lemma phase_no_reload:
  "p \<noteq> ReloadDaemon \<Longrightarrow> phaseCallsPartial ch p t \<Longrightarrow> DBus_DaemonReload \<notin> set t"
proof (cases p)
  case WriteChangedFiles
  assume "phaseCallsPartial ch p t"
  with WriteChangedFiles show ?thesis by (auto simp: list_all_iff)
next
  case WriteChangedUnits
  assume "phaseCallsPartial ch p t"
  with WriteChangedUnits show ?thesis by (auto simp: list_all_iff)
next
  case RemoveDeletedUnits
  assume "phaseCallsPartial ch p t"
  with RemoveDeletedUnits have "prefix t (concat (map unitRemovalCalls (unitsDeleted ch)))"
    by simp
  then have "set t \<subseteq> set (concat (map unitRemovalCalls (unitsDeleted ch)))"
    by (rule set_mono_prefix)
  then show ?thesis by (auto simp: unitRemovalCalls_def)
next
  case ReloadDaemon
  assume "p \<noteq> ReloadDaemon"
  with ReloadDaemon show ?thesis by simp
next
  case ExecuteUnitCommands
  assume "phaseCallsPartial ch p t"
  with ExecuteUnitCommands have "mset t = mset (map commandFor (unitsChanged ch))"
    by simp
  then have "set t = set (map commandFor (unitsChanged ch))"
    by (rule mset_eq_setD)
  then show ?thesis by (auto simp: commandFor_def)
next
  case RemoveDeletedFiles
  assume "phaseCallsPartial ch p t"
  with RemoveDeletedFiles have "prefix t (map (\<lambda>f. FS_Remove (Path f)) (filesDeleted ch))"
    by simp
  then have "set t \<subseteq> set (map (\<lambda>f. FS_Remove (Path f)) (filesDeleted ch))"
    by (rule set_mono_prefix)
  then show ?thesis by auto
qed

lemma engine_no_reload:
  "applyEngine r nd ch ps w = (res, w') \<Longrightarrow> ReloadDaemon \<notin> set ps \<Longrightarrow>
     \<exists>t. trace w' = trace w @ t \<and> DBus_DaemonReload \<notin> set t"
proof (induction ps arbitrary: w)
  case Nil
  then show ?case by simp
next
  case (Cons q qs)
  obtain r1 w1 where step: "runPhase r nd ch q w = (r1, w1)" by (cases "runPhase r nd ch q w")
  from runPhase_calls[OF step] obtain t where t: "trace w1 = trace w @ t" "phaseCallsPartial ch q t"
    by blast
  from Cons.prems have "q \<noteq> ReloadDaemon" by auto
  from phase_no_reload[OF this t(2)] have nr: "DBus_DaemonReload \<notin> set t" .
  show ?case
  proof (cases r1)
    case (Some e)
    with Cons.prems step t nr show ?thesis by auto
  next
    case None
    with Cons.prems step have "applyEngine r nd ch qs w1 = (res, w')" by simp
    from Cons.IH[OF this] Cons.prems obtain t' where "trace w' = trace w1 @ t'" "DBus_DaemonReload \<notin> set t'"
      by auto
    with t nr show ?thesis by auto
  qed
qed

lemma applyEngine_append:
  "applyEngine r nd ch (ps @ qs) w =
     (case applyEngine r nd ch ps w of
        (Some x, w') \<Rightarrow> (Some x, w')
      | (None, w') \<Rightarrow> applyEngine r nd ch qs w')"
  by (induction ps arbitrary: w) (auto split: prod.splits option.splits)

lemma Reconcile_persist_no_reload:
  "Reconcile_persist r nd raw cks w = (res, w') \<Longrightarrow>
     \<exists>t. trace w' = trace w @ t \<and> DBus_DaemonReload \<notin> set t"
  by (auto simp: Reconcile_persist_def Recorder_Event_op_def Client_Patch_op_def invoke_def Let_def
      split: prod.splits option.splits dest!: frame_WriteFile)

subsection \<open>Deletions\<close>

lemma Remove_result:
  "exceptNotFound (fault r (trace w) (FS_Remove p)) = None \<Longrightarrow>
     exceptNotFound (fst (FS_Remove_op r p w)) = None"
  by (auto simp: FS_Remove_op_def invoke_def exceptNotFound_def split: option.splits if_splits)

lemma RemoveAll_result:
  "exceptNotFound (fault r (trace w) (FS_RemoveAll p)) = None \<Longrightarrow>
     exceptNotFound (fst (FS_RemoveAll_op r p w)) = None"
  by (auto simp: FS_RemoveAll_op_def invoke_def exceptNotFound_def split: option.splits if_splits)

lemma removeDeletedFiles_ok:
  "\<forall>h p. exceptNotFound (fault r h (FS_Remove p)) = None \<Longrightarrow> fst (removeDeletedFiles r files w) = None"
proof (induction files arbitrary: w)
  case Nil
  then show ?case by simp
next
  case (Cons f files)
  obtain res w1 where s: "FS_Remove_op r (Path f) w = (res, w1)" by (cases "FS_Remove_op r (Path f) w")
  with Remove_result[of r w "Path f"] Cons.prems have "exceptNotFound res = None" by simp
  with s Cons.IH[OF Cons.prems, of w1] show ?case by simp
qed

lemma removeDeletedDropIns_ok:
  "\<forall>h p. exceptNotFound (fault r h (FS_Remove p)) = None \<Longrightarrow>
     fst (removeDeletedDropIns r unit dir ds w) = None"
proof (induction ds arbitrary: w)
  case Nil
  then show ?case by simp
next
  case (Cons d ds)
  let ?p = "path_Join dir (DropInName d)"
  obtain res w1 where s: "FS_Remove_op r ?p w = (res, w1)" by (cases "FS_Remove_op r ?p w")
  with Remove_result[of r w ?p] Cons.prems have "exceptNotFound res = None" by simp
  with s Cons.IH[OF Cons.prems, of w1] show ?case by (simp add: Let_def)
qed

lemma removeDeletedUnits_ok:
  assumes "\<forall>h p. exceptNotFound (fault r h (FS_Remove p)) = None"
      and "\<forall>h p. exceptNotFound (fault r h (FS_RemoveAll p)) = None"
      and "\<forall>h n. fault r h (DBus_Disable n) = None"
      and "\<forall>h n. fault r h (DBus_Stop n) = None"
  shows "fst (removeDeletedUnits r nd units w) = None"
proof (induction units arbitrary: w)
  case Nil
  then show ?case by simp
next
  case (Cons u units)
  let ?p = "path_Join etcSystemdSystem (Name u)"
  let ?d = "path_Join etcSystemdSystem (Name u @ ''.d'')"
  obtain w1 where s1: "invoke r (DBus_Disable (Name u)) w = (None, w1)"
    using assms(3) by (simp add: invoke_def)
  obtain w2 where s2: "invoke r (DBus_Stop (Name u)) w1 = (None, w2)"
    using assms(4) by (simp add: invoke_def)
  obtain r3 w3 where s3: "FS_Remove_op r ?p w2 = (r3, w3)" by (cases "FS_Remove_op r ?p w2")
  obtain r4 w4 where s4: "FS_RemoveAll_op r ?d w3 = (r4, w4)" by (cases "FS_RemoveAll_op r ?d w3")
  from s3 Remove_result[of r w2 ?p] assms(1) have e3: "exceptNotFound r3 = None" by simp
  from s4 RemoveAll_result[of r w3 ?d] assms(2) have e4: "exceptNotFound r4 = None" by simp
  from s1 s2 s3 s4 e3 e4 Cons.IH[of w4] show ?case by simp
qed

lemma removeDeletedFiles_error:
  "removeDeletedFiles r files w = (Some e, w') \<Longrightarrow> \<not> isErrFileNotFound e"
  by (induction files arbitrary: w)
     (auto simp: exceptNotFound_def split: prod.splits option.splits if_splits)

lemma removeDeletedDropIns_error:
  "removeDeletedDropIns r unit dir ds w = (Some e, w') \<Longrightarrow> \<not> isErrFileNotFound e"
  by (induction ds arbitrary: w)
     (auto simp: exceptNotFound_def Let_def split: prod.splits option.splits if_splits)

subsection \<open>Unit files and drop-ins\<close>









subsection \<open>The concrete node, evaluated\<close>

lemmas eval_defs = applyChangedFiles_def FS_TempDir_op_def FS_MkdirAll_op_def FS_WriteFile_op_def
      FS_Rename_op_def FS_RemoveAll_op_def FS_ReadFile_op_def FS_Chmod_op_def FS_Remove_op_def
      invoke_def path_Join_def filepath_Dir_def filepath_Base_def defaultFilePermissions_def
      ModeDir_def Let_def below_def applyUnitFile_def applyUnitDropIns_def applyUnitEnablement_def
      exceptNotFound_def setMode_def etcSystemdSystem_def BoolDeref_def executeUnitCommands_def
      Parallel_def taskOrder_def unitCommandTask_def firstError_def sixPhases_def

lemma ex_fetch:
  "Reconcile_fetch exReloadFails exWorld =
     (Proceed (Some Map.empty) ''raw'' ''c1'' exChanges,
      exWorld\<lparr>trace := [Client_GetSecret, Client_GetNode ''node-1'']\<rparr>)"
  by (simp add: Reconcile_fetch_def Client_Get_secret_def Client_Get_node_def invoke_def
      annotation_def exReloadFails_def exReconciler_def exWorld_def)

lemma ex_engine:
  "fst (applyEngine exReloadFails (Some Map.empty) exChanges sixPhases
         (exWorld\<lparr>trace := [Client_GetSecret, Client_GetNode ''node-1'']\<rparr>))
     = Some (ReloadDaemon, ErrOther ''dbus down'')"
  by (simp add: eval_defs exReloadFails_def exReconciler_def exWorld_def exChanges_def exUnit_def
      exUnit2_def exDropIn_def)

lemma ex_fetch_ok:
  "Reconcile_fetch exReconciler exWorld =
     (Proceed (Some Map.empty) ''raw'' ''c1'' exChanges,
      exWorld\<lparr>trace := [Client_GetSecret, Client_GetNode ''node-1'']\<rparr>)"
  by (simp add: Reconcile_fetch_def Client_Get_secret_def Client_Get_node_def invoke_def
      annotation_def exReconciler_def exWorld_def)

lemma ex_engine_ok:
  "fst (applyEngine exReconciler (Some Map.empty) exChanges sixPhases
          (exWorld\<lparr>trace := [Client_GetSecret, Client_GetNode ''node-1'']\<rparr>)) = None"
  by (simp add: eval_defs exReconciler_def exWorld_def exChanges_def exUnit_def
      exUnit2_def exDropIn_def)

lemma ex_unregistered_secret:
  "Client_Get_secret exReconciler exUnregistered =
     (Inr [''osc.yaml'' \<mapsto> ''raw''], exUnregistered\<lparr>trace := [Client_GetSecret]\<rparr>)"
  by (simp add: Client_Get_secret_def invoke_def exReconciler_def exUnregistered_def exWorld_def)

lemma ex_unregistered_node:
  "Client_Get_node exReconciler (exUnregistered\<lparr>trace := [Client_GetSecret]\<rparr>) =
     (Inl ErrAPINotFound, exUnregistered\<lparr>trace := [Client_GetSecret, Client_GetNode ''node-1'']\<rparr>)"
  by (simp add: Client_Get_node_def invoke_def exReconciler_def exUnregistered_def exWorld_def)

lemma ex_unregistered_engine:
  "fst (applyEngine exReconciler None exChanges sixPhases
          (exUnregistered\<lparr>trace := [Client_GetSecret, Client_GetNode ''node-1'']\<rparr>)) = None"
  by (simp add: eval_defs exReconciler_def exUnregistered_def exWorld_def exChanges_def exUnit_def
      exUnit2_def exDropIn_def)

lemma ex_idle_fetch:
  "Reconcile_fetch exIdle exWorld =
     (Proceed (Some Map.empty) ''raw'' ''c1'' exNoChanges,
      exWorld\<lparr>trace := [Client_GetSecret, Client_GetNode ''node-1'']\<rparr>)"
  by (simp add: Reconcile_fetch_def Client_Get_secret_def Client_Get_node_def invoke_def
      annotation_def exIdle_def exReconciler_def exWorld_def)

lemma ex_idle_first:
  "fst (applyEngine exIdle (Some Map.empty) exNoChanges
          [WriteChangedFiles, WriteChangedUnits, RemoveDeletedUnits]
          (exWorld\<lparr>trace := [Client_GetSecret, Client_GetNode ''node-1'']\<rparr>)) = None"
  by (simp add: eval_defs exIdle_def exReconciler_def exWorld_def exNoChanges_def)

lemma exFaulty_run:
  "executeUnitCommands exFaulty None [exUnit, exUnit2] exWorld =
     (Some (Wrap (''unable to stop unit '' @ quoted ''foo.service'') (ErrOther ''timeout'')),
      exWorld\<lparr>trace := [DBus_Restart ''web.service'', DBus_Stop ''foo.service'']\<rparr>)"
  by (simp add: executeUnitCommands_def Parallel_def taskOrder_def unitCommandTask_def invoke_def
      firstError_def BoolDeref_def exFaulty_def exReconciler_def exUnit_def exUnit2_def exWorld_def
      Let_def)


lemmas pass_defs = Reconcile_def Reconcile_fetch_def Reconcile_apply_def Reconcile_persist_def
      Client_Get_secret_def Client_Get_node_def annotation_def Recorder_Event_op_def Client_Patch_op_def
      lastAppliedOperatingSystemConfigFilePath_def

lemma ex_pass_trace:
  "trace (snd (Reconcile exReconciler exWorld)) =
     [Client_GetSecret, Client_GetNode ''node-1'',
      FS_TempDir [] ''gardener-node-agent-*'', FS_MkdirAll ''/etc'' 2147483648,
      FS_WriteFile ''/tmp/gardener-node-agent-1/app.conf'' ''a=1'' 384,
      FS_Rename ''/tmp/gardener-node-agent-1/app.conf'' ''/etc/app.conf'',
      FS_RemoveAll ''/tmp/gardener-node-agent-1'',
      FS_ReadFile ''/etc/systemd/system/foo.service'',
      FS_Chmod ''/etc/systemd/system/foo.service'' 384,
      FS_RemoveAll ''/etc/systemd/system/foo.service.d'',
      DBus_Disable ''foo.service'',
      FS_ReadFile ''/etc/systemd/system/web.service'',
      FS_WriteFile ''/etc/systemd/system/web.service'' ''Y'' 384,
      FS_Chmod ''/etc/systemd/system/web.service'' 384,
      FS_MkdirAll ''/etc/systemd/system/web.service.d'' 2147483648,
      FS_ReadFile ''/etc/systemd/system/web.service.d/10-env.conf'',
      FS_WriteFile ''/etc/systemd/system/web.service.d/10-env.conf'' ''E'' 384,
      FS_Chmod ''/etc/systemd/system/web.service.d/10-env.conf'' 384,
      DBus_Enable ''web.service'',
      DBus_Disable ''bar.service'', DBus_Stop ''bar.service'',
      FS_Remove ''/etc/systemd/system/bar.service'',
      FS_RemoveAll ''/etc/systemd/system/bar.service.d'',
      DBus_DaemonReload,
      DBus_Restart ''web.service'', DBus_Stop ''foo.service'',
      FS_Remove ''/etc/old.conf'',
      FS_WriteFile ''/var/lib/gardener-node-agent/last-applied-osc.yaml'' ''raw'' 420,
      Recorder_Event ''OSCApplied'' ''Operating system config has been applied successfully'',
      Client_Patch [(''worker.gardener.cloud/kubernetes-version'', ''1.27.3''),
                    (''checksum/cloud-config-data'', ''c1'')]]"
  by (simp add: pass_defs eval_defs exReconciler_def exWorld_def exChanges_def exUnit_def
      exUnit2_def exDropIn_def)

lemma ex_idle_trace:
  "trace (snd (Reconcile exIdle exWorld)) =
     [Client_GetSecret, Client_GetNode ''node-1'',
      FS_TempDir [] ''gardener-node-agent-*'', FS_RemoveAll ''/tmp/gardener-node-agent-1'',
      DBus_DaemonReload,
      FS_WriteFile ''/var/lib/gardener-node-agent/last-applied-osc.yaml'' ''raw'' 420,
      Recorder_Event ''OSCApplied'' ''Operating system config has been applied successfully'',
      Client_Patch [(''worker.gardener.cloud/kubernetes-version'', ''1.27.3''),
                    (''checksum/cloud-config-data'', ''c1'')]]"
  by (simp add: pass_defs eval_defs exIdle_def exReconciler_def exWorld_def exNoChanges_def)

lemma ex_pass_marker:
  "fs exWorld ''/var/lib/gardener-node-agent/last-applied-osc.yaml'' = None
   \<and> fs (snd (Reconcile exReconciler exWorld)) ''/var/lib/gardener-node-agent/last-applied-osc.yaml''
     = Some (RegularFile ''raw'' 420)
   \<and> fs (snd (Reconcile exReloadFails exWorld)) ''/var/lib/gardener-node-agent/last-applied-osc.yaml''
     = None"
  by (simp add: pass_defs eval_defs exReconciler_def exReloadFails_def exWorld_def exChanges_def exUnit_def
      exUnit2_def exDropIn_def)

section \<open>Properties of the specification\<close>

text \<open>
  C1. If one of the six apply phases returns an error, \<open>Reconcile\<close> returns that error,
  wrapped with the context of the phase, and does nothing after the failing phase: the
  world it leaves is the one the phase left, so the marker file is not written by the
  pass and the node object (with its checksum annotation) is unchanged. Only when all
  six phases have succeeded does the pass go on, and its next call is then the write of
  the marker file.
\<close>

theorem phase_error_returned_marker_not_written:
  assumes "Reconcile_fetch r w = (Proceed nd raw cks ch, w0)"
  shows "case applyEngine r nd ch sixPhases w0 of
           (Some (p, e), w') \<Rightarrow>
             Reconcile r w = ((noRequeue, Some (Wrap (phaseContext p) e)), w') \<and> node w' = node w
         | (None, w8) \<Rightarrow>
             Reconcile r w = Reconcile_persist r nd raw cks w8
             \<and> (\<exists>t. trace (snd (Reconcile r w)) =
                      trace w8 @ FS_WriteFile (lastAppliedOperatingSystemConfigFilePath r) raw 420 # t)"
proof -
  obtain res w' where eng: "applyEngine r nd ch sixPhases w0 = (res, w')"
    by (cases "applyEngine r nd ch sixPhases w0")
  from applyEngine_calls[OF eng] Reconcile_fetch_Proceed[OF assms] have nd: "node w' = node w" by simp
  show ?thesis
  proof (cases res)
    case None
    obtain out w9 where p: "Reconcile_persist r nd raw cks w' = (out, w9)"
      by (cases "Reconcile_persist r nd raw cks w'")
    from Reconcile_persist_trace[OF p] None eng p show ?thesis
      by (simp add: Reconcile_Proceed[OF assms])
  next
    case (Some pe)
    with eng nd show ?thesis by (cases pe) (simp add: Reconcile_Proceed[OF assms])
  qed
qed

theorem phase_error_returned_marker_not_written_witness:
  "fst (Reconcile exReloadFails exWorld) =
     (noRequeue, Some (Wrap ''failed reloading systemd daemon'' (ErrOther ''dbus down'')))
   \<and> node (snd (Reconcile exReloadFails exWorld)) = node exWorld
   \<and> fs (snd (Reconcile exReloadFails exWorld))
        ''/var/lib/gardener-node-agent/last-applied-osc.yaml'' = None"
proof -
  let ?w0 = "exWorld\<lparr>trace := [Client_GetSecret, Client_GetNode ''node-1'']\<rparr>"
  obtain w' where "applyEngine exReloadFails (Some Map.empty) exChanges sixPhases ?w0 =
          (Some (ReloadDaemon, ErrOther ''dbus down''), w')"
    using ex_engine by (cases "applyEngine exReloadFails (Some Map.empty) exChanges sixPhases ?w0") auto
  with phase_error_returned_marker_not_written[OF ex_fetch] ex_pass_marker show ?thesis
    by simp
qed

text \<open>
  C2. In every pass that reaches the apply phases, the calls made after the fetch split
  into consecutive blocks, one per phase, in the order write files, write units, delete
  units, daemon reload, unit commands, delete files. When all phases succeed every block
  is a complete run of its phase: the block of the deleted units is, for each unit in
  turn, disable, stop, remove the unit file, remove the drop-in directory; the reload is
  a single call; the marker write follows the last block. When a phase fails, the blocks
  before it are complete, its own block is a partial run (for the deleted units a prefix
  of the sequence above), and no later phase makes a call.
\<close>

theorem phases_run_in_order:
  assumes "Reconcile_fetch r w = (Proceed nd raw cks ch, w0)"
  shows "case applyEngine r nd ch sixPhases w0 of
           (None, w6) \<Rightarrow>
             (\<exists>ts t. list_all2 (phaseCalls ch) sixPhases ts
                \<and> trace (snd (Reconcile r w)) =
                    trace w0 @ concat ts
                      @ FS_WriteFile (lastAppliedOperatingSystemConfigFilePath r) raw 420 # t)
         | (Some (p, e), w') \<Rightarrow>
             (\<exists>ps1 ps2 ts1 t. sixPhases = ps1 @ p # ps2
                \<and> list_all2 (phaseCalls ch) ps1 ts1 \<and> phaseCallsPartial ch p t
                \<and> trace (snd (Reconcile r w)) = trace w0 @ concat ts1 @ t)"
proof -
  obtain res w' where eng: "applyEngine r nd ch sixPhases w0 = (res, w')"
    by (cases "applyEngine r nd ch sixPhases w0")
  note calls = applyEngine_calls[OF eng]
  show ?thesis
  proof (cases res)
    case None
    obtain out w9 where p: "Reconcile_persist r nd raw cks w' = (out, w9)"
      by (cases "Reconcile_persist r nd raw cks w'")
    from Reconcile_persist_trace[OF p] obtain t where
      t: "trace w9 = trace w' @ FS_WriteFile (lastAppliedOperatingSystemConfigFilePath r) raw 420 # t"
      by blast
    from calls None obtain ts where
      ts: "list_all2 (phaseCalls ch) sixPhases ts" "trace w' = trace w0 @ concat ts"
      by auto
    from None eng p have "snd (Reconcile r w) = w9" by (simp add: Reconcile_Proceed[OF assms])
    with t ts have "list_all2 (phaseCalls ch) sixPhases ts
                \<and> trace (snd (Reconcile r w)) =
                    trace w0 @ concat ts
                      @ FS_WriteFile (lastAppliedOperatingSystemConfigFilePath r) raw 420 # t"
      by simp
    then have "\<exists>ts t. list_all2 (phaseCalls ch) sixPhases ts
                \<and> trace (snd (Reconcile r w)) =
                    trace w0 @ concat ts
                      @ FS_WriteFile (lastAppliedOperatingSystemConfigFilePath r) raw 420 # t"
      by blast
    with None eng show ?thesis by simp
  next
    case (Some pe)
    obtain p e where pe: "pe = (p, e)" by (cases pe)
    from Some pe eng have "snd (Reconcile r w) = w'" by (simp add: Reconcile_Proceed[OF assms])
    with calls Some pe eng show ?thesis by simp
  qed
qed

theorem phases_run_in_order_witness:
  "(\<exists>ts t. list_all2 (phaseCalls exChanges) sixPhases ts
      \<and> trace (snd (Reconcile exReconciler exWorld)) =
           [Client_GetSecret, Client_GetNode ''node-1''] @ concat ts
             @ FS_WriteFile (lastAppliedOperatingSystemConfigFilePath exReconciler) ''raw'' 420 # t)
   \<and> trace (snd (Reconcile exReconciler exWorld)) =
     [Client_GetSecret, Client_GetNode ''node-1'',
      FS_TempDir [] ''gardener-node-agent-*'', FS_MkdirAll ''/etc'' 2147483648,
      FS_WriteFile ''/tmp/gardener-node-agent-1/app.conf'' ''a=1'' 384,
      FS_Rename ''/tmp/gardener-node-agent-1/app.conf'' ''/etc/app.conf'',
      FS_RemoveAll ''/tmp/gardener-node-agent-1'',
      FS_ReadFile ''/etc/systemd/system/foo.service'',
      FS_Chmod ''/etc/systemd/system/foo.service'' 384,
      FS_RemoveAll ''/etc/systemd/system/foo.service.d'',
      DBus_Disable ''foo.service'',
      FS_ReadFile ''/etc/systemd/system/web.service'',
      FS_WriteFile ''/etc/systemd/system/web.service'' ''Y'' 384,
      FS_Chmod ''/etc/systemd/system/web.service'' 384,
      FS_MkdirAll ''/etc/systemd/system/web.service.d'' 2147483648,
      FS_ReadFile ''/etc/systemd/system/web.service.d/10-env.conf'',
      FS_WriteFile ''/etc/systemd/system/web.service.d/10-env.conf'' ''E'' 384,
      FS_Chmod ''/etc/systemd/system/web.service.d/10-env.conf'' 384,
      DBus_Enable ''web.service'',
      DBus_Disable ''bar.service'', DBus_Stop ''bar.service'',
      FS_Remove ''/etc/systemd/system/bar.service'',
      FS_RemoveAll ''/etc/systemd/system/bar.service.d'',
      DBus_DaemonReload,
      DBus_Restart ''web.service'', DBus_Stop ''foo.service'',
      FS_Remove ''/etc/old.conf'',
      FS_WriteFile ''/var/lib/gardener-node-agent/last-applied-osc.yaml'' ''raw'' 420,
      Recorder_Event ''OSCApplied'' ''Operating system config has been applied successfully'',
      Client_Patch [(''worker.gardener.cloud/kubernetes-version'', ''1.27.3''),
                    (''checksum/cloud-config-data'', ''c1'')]]"
proof (rule conjI)
  let ?w0 = "exWorld\<lparr>trace := [Client_GetSecret, Client_GetNode ''node-1'']\<rparr>"
  obtain w6 where "applyEngine exReconciler (Some Map.empty) exChanges sixPhases ?w0 = (None, w6)"
    using ex_engine_ok by (cases "applyEngine exReconciler (Some Map.empty) exChanges sixPhases ?w0") auto
  with phases_run_in_order[OF ex_fetch_ok]
  show "\<exists>ts t. list_all2 (phaseCalls exChanges) sixPhases ts
      \<and> trace (snd (Reconcile exReconciler exWorld)) =
           [Client_GetSecret, Client_GetNode ''node-1''] @ concat ts
             @ FS_WriteFile (lastAppliedOperatingSystemConfigFilePath exReconciler) ''raw'' 420 # t"
    by simp
qed (rule ex_pass_trace)

text \<open>
  C3, as stated, fails: the change computation runs before the convergence gate, so a
  pass whose node annotation equals the checksum of the desired configuration returns
  an error when that computation fails.
\<close>

theorem checksum_match_counterexample:
  "annotation (the (node exConverged)) (AnnotationKeyChecksum exComputeFails) = ''c1''
   \<and> extractOSCFromSecret exComputeFails (the (secret exConverged)) = Inr ((), ''raw'', ''c1'')
   \<and> fst (Reconcile exComputeFails exConverged) =
       (noRequeue, Some (Wrap ''unable to calculate the OSC changes''
                           (ErrOther ''cannot decode last applied OSC'')))"
  by (simp add: Reconcile_def Reconcile_fetch_def Client_Get_secret_def Client_Get_node_def invoke_def
      annotation_def exComputeFails_def exReconciler_def exConverged_def exWorld_def)

text \<open>
  C3, amended. For every pass in which the secret and the node are fetched, the
  configuration is extracted and the checksum in the node's annotation equals the
  checksum of the desired configuration, \<open>Reconcile\<close> skips the apply engine entirely:
  the only calls of the pass are the two reads of the API server, so there is no
  filesystem write, no removal and no call to the service manager, whether or not the
  change computation succeeds. The pass terminates successfully, without requeue, when
  the change computation succeeds, and returns the error of that computation otherwise.
\<close>

theorem checksum_match_skips_apply:
  assumes "fault r (trace w) Client_GetSecret = None"
      and "fault r (trace w @ [Client_GetSecret]) (Client_GetNode (NodeName r)) = None"
      and "secret w = Some sec" and "node w = Some a"
      and "extractOSCFromSecret r sec = Inr (osc, raw, cks)"
      and "annotation a (AnnotationKeyChecksum r) = cks"
  shows "snd (Reconcile r w) =
           w\<lparr>trace := trace w @ [Client_GetSecret, Client_GetNode (NodeName r)]\<rparr>
       \<and> fst (Reconcile r w) =
           (case computeOperatingSystemConfigChanges r (fs w) osc of
              Inl e \<Rightarrow> (noRequeue, Some (Wrap ''unable to calculate the OSC changes'' e))
            | Inr ch \<Rightarrow> (noRequeue, None))"
  using assms
  by (cases "computeOperatingSystemConfigChanges r (fs w) osc")
     (simp_all add: Reconcile_def Reconcile_fetch_def Client_Get_secret_def Client_Get_node_def
        invoke_def)

theorem checksum_match_skips_apply_witness:
  "Reconcile exReconciler exConverged =
     ((noRequeue, None), exConverged\<lparr>trace := [Client_GetSecret, Client_GetNode ''node-1'']\<rparr>)
   \<and> snd (Reconcile exComputeFails exConverged) =
       exConverged\<lparr>trace := [Client_GetSecret, Client_GetNode ''node-1'']\<rparr>"
  using checksum_match_skips_apply[of exReconciler exConverged "[''osc.yaml'' \<mapsto> ''raw'']"
      "[''checksum/cloud-config-data'' \<mapsto> ''c1'']" "()" "''raw''" "''c1''"]
    checksum_match_skips_apply[of exComputeFails exConverged "[''osc.yaml'' \<mapsto> ''raw'']"
      "[''checksum/cloud-config-data'' \<mapsto> ''c1'']" "()" "''raw''" "''c1''"]
  by (simp add: exComputeFails_def exReconciler_def exConverged_def exWorld_def annotation_def
      prod_eq_iff)

text \<open>
  C4. In the phase that executes the unit commands, exactly one command is issued for
  every changed unit: the calls of the phase are, as a multiset, the commands of the
  changed units, where the command of a unit is Stop when its \<open>Enable\<close> is explicitly
  false or its explicit command is Stop, and Restart otherwise. In particular a unit
  with \<open>Enable\<close> false and no explicit command receives Stop.
\<close>

theorem executeUnitCommands_one_command_per_unit:
  "(\<exists>t. trace (snd (executeUnitCommands r nd units w)) = trace w @ t
         \<and> mset t = mset (map commandFor units))
   \<and> (Enable u = Some False \<and> Command u = None \<longrightarrow>
        trace (snd (executeUnitCommands r nd [u] w)) = trace w @ [DBus_Stop (Name u)])"
proof
  show "\<exists>t. trace (snd (executeUnitCommands r nd units w)) = trace w @ t
         \<and> mset t = mset (map commandFor units)"
    using executeUnitCommands_trace[of r nd units w] by (cases "executeUnitCommands r nd units w") auto
next
  have "scheduled r [u] w = [u]"
    using scheduled_mset[of r "[u]" w] by simp
  then show "Enable u = Some False \<and> Command u = None \<longrightarrow>
        trace (snd (executeUnitCommands r nd [u] w)) = trace w @ [DBus_Stop (Name u)]"
    by (simp add: executeUnitCommands_eq commandFor_def)
qed

theorem executeUnitCommands_one_command_per_unit_witness:
  "(\<exists>t. trace (snd (executeUnitCommands exReconciler None [exUnit, exUnit2] exWorld)) = trace exWorld @ t
         \<and> mset t = {#DBus_Stop ''foo.service'', DBus_Restart ''web.service''#})
   \<and> trace (snd (executeUnitCommands exReconciler None [exUnit] exWorld)) = [DBus_Stop ''foo.service'']"
  using executeUnitCommands_one_command_per_unit[of exReconciler None "[exUnit, exUnit2]" exWorld exUnit]
  by (simp add: commandFor_def exUnit_def exUnit2_def exWorld_def)

text \<open>
  C5. The phase that executes the unit commands runs the command of every changed unit,
  whatever the other commands return; it returns no error if and only if no command
  failed; and when a command fails, the error returned is that of the first command
  that failed, wrapped by its task.
\<close>

theorem executeUnitCommands_first_error_all_run:
  assumes "executeUnitCommands r nd units w = (res, w')"
  shows "\<exists>t. trace w' = trace w @ t \<and> mset t = mset (map commandFor units)
           \<and> (res = None \<longleftrightarrow> (\<forall>i<length t. fault r (trace w @ take i t) (t ! i) = None))
           \<and> (\<forall>i e. i < length t \<and> fault r (trace w @ take i t) (t ! i) = Some e
                      \<and> (\<forall>j<i. fault r (trace w @ take j t) (t ! j) = None)
                    \<longrightarrow> res = Some (Wrap (commandContext (t ! i)) e))"
proof -
  define t where "t = map commandFor (scheduled r units w)"
  define rs where "rs = commandResults r (trace w) t"
  from assms have res: "res = firstError rs" and w': "trace w' = trace w @ t"
    by (auto simp add: executeUnitCommands_eq t_def rs_def)
  have len: "length rs = length t" by (simp add: rs_def commandResults_length)
  have nth: "rs ! i = map_option (Wrap (commandContext (t ! i))) (fault r (trace w @ take i t) (t ! i))"
    if "i < length t" for i
    using that by (simp add: rs_def commandResults_nth)
  have m: "mset t = mset (map commandFor units)"
    unfolding t_def using scheduled_mset[of r units w] by (metis mset_map)
  have a: "res = None \<longleftrightarrow> (\<forall>i<length t. fault r (trace w @ take i t) (t ! i) = None)"
    unfolding res firstError_None len using nth by auto
  have b: "res = Some (Wrap (commandContext (t ! i)) e)"
    if "i < length t" "fault r (trace w @ take i t) (t ! i) = Some e"
       "\<forall>j<i. fault r (trace w @ take j t) (t ! j) = None" for i e
  proof -
    from that have "rs ! i = Some (Wrap (commandContext (t ! i)) e)" by (simp add: nth)
    moreover from that have "\<forall>j<i. rs ! j = None" by (simp add: nth)
    ultimately show ?thesis unfolding res using that(1) len by (intro firstError_first) auto
  qed
  from w' m a b show ?thesis by blast
qed

theorem executeUnitCommands_first_error_all_run_witness:
  "executeUnitCommands exFaulty None [exUnit, exUnit2] exWorld =
     (Some (Wrap (''unable to stop unit '' @ quoted ''foo.service'') (ErrOther ''timeout'')),
      exWorld\<lparr>trace := [DBus_Restart ''web.service'', DBus_Stop ''foo.service'']\<rparr>)
   \<and> mset [DBus_Restart ''web.service'', DBus_Stop ''foo.service'']
       = mset (map commandFor [exUnit, exUnit2])"
proof -
  have "\<exists>t. trace (exWorld\<lparr>trace := [DBus_Restart ''web.service'', DBus_Stop ''foo.service'']\<rparr>)
             = trace exWorld @ t \<and> mset t = mset (map commandFor [exUnit, exUnit2])"
    using executeUnitCommands_first_error_all_run[OF exFaulty_run] by blast
  then have "mset [DBus_Restart ''web.service'', DBus_Stop ''foo.service'']
       = mset (map commandFor [exUnit, exUnit2])"
    by (simp add: exWorld_def)
  with exFaulty_run show ?thesis by simp
qed

text \<open>
  C6. An error returned by the removal of deleted files or of deleted drop-ins is never
  a not-found error. When the filesystem answers a removal with nothing worse than
  not-found, the removal of deleted files and of deleted drop-ins returns no error,
  whatever is on disk; and so does the removal of deleted units, when in addition the
  service manager disables and stops them.
\<close>

theorem deletions_ignore_not_found:
  "(\<forall>e. fst (removeDeletedFiles r files w) = Some e \<longrightarrow> \<not> isErrFileNotFound e)
   \<and> (\<forall>e. fst (removeDeletedDropIns r unit dir dropIns w) = Some e \<longrightarrow> \<not> isErrFileNotFound e)
   \<and> ((\<forall>h p. exceptNotFound (fault r h (FS_Remove p)) = None) \<longrightarrow>
         fst (removeDeletedFiles r files w) = None
         \<and> fst (removeDeletedDropIns r unit dir dropIns w) = None
         \<and> ((\<forall>h p. exceptNotFound (fault r h (FS_RemoveAll p)) = None)
              \<and> (\<forall>h n. fault r h (DBus_Disable n) = None)
              \<and> (\<forall>h n. fault r h (DBus_Stop n) = None)
            \<longrightarrow> fst (removeDeletedUnits r nd units w) = None))"
proof (intro conjI allI impI)
  fix e assume "fst (removeDeletedFiles r files w) = Some e"
  then show "\<not> isErrFileNotFound e"
    using removeDeletedFiles_error[of r files w e "snd (removeDeletedFiles r files w)"]
    by (cases "removeDeletedFiles r files w") simp
next
  fix e assume "fst (removeDeletedDropIns r unit dir dropIns w) = Some e"
  then show "\<not> isErrFileNotFound e"
    using removeDeletedDropIns_error[of r unit dir dropIns w e
        "snd (removeDeletedDropIns r unit dir dropIns w)"]
    by (cases "removeDeletedDropIns r unit dir dropIns w") simp
next
  assume "\<forall>h p. exceptNotFound (fault r h (FS_Remove p)) = None"
  then show "fst (removeDeletedFiles r files w) = None" by (rule removeDeletedFiles_ok)
next
  assume "\<forall>h p. exceptNotFound (fault r h (FS_Remove p)) = None"
  then show "fst (removeDeletedDropIns r unit dir dropIns w) = None"
    by (rule removeDeletedDropIns_ok)
next
  assume "\<forall>h p. exceptNotFound (fault r h (FS_Remove p)) = None"
    and "(\<forall>h p. exceptNotFound (fault r h (FS_RemoveAll p)) = None)
              \<and> (\<forall>h n. fault r h (DBus_Disable n) = None)
              \<and> (\<forall>h n. fault r h (DBus_Stop n) = None)"
  then show "fst (removeDeletedUnits r nd units w) = None"
    using removeDeletedUnits_ok[of r nd units w] by blast
qed

theorem deletions_ignore_not_found_witness:
  "fs exWorld ''/etc/old.conf'' = None
   \<and> fst (removeDeletedFiles exReconciler (filesDeleted exChanges) exWorld) = None
   \<and> fst (removeDeletedDropIns exReconciler exUnit2 ''/etc/systemd/system/web.service.d''
            [exDropIn] exWorld) = None
   \<and> fst (removeDeletedUnits exReconciler None (unitsDeleted exChanges) exWorld) = None"
  using deletions_ignore_not_found[of exReconciler "filesDeleted exChanges" exWorld exUnit2
      "''/etc/systemd/system/web.service.d''" "[exDropIn]" None "unitsDeleted exChanges"]
  by (simp add: exReconciler_def exceptNotFound_def exWorld_def)



text \<open>
  C8, as stated, fails: with the node not found the skip is never taken, but the full
  apply does not run in every such pass. When the change computation fails the pass
  returns before the first phase, and when a phase fails (here the daemon reload) the
  later phases and the marker write do not run.
\<close>

theorem node_not_found_counterexample:
  "node exUnregistered = None
   \<and> Reconcile exComputeFails exUnregistered =
       ((noRequeue, Some (Wrap ''unable to calculate the OSC changes''
                            (ErrOther ''cannot decode last applied OSC''))),
        exUnregistered\<lparr>trace := [Client_GetSecret, Client_GetNode ''node-1'']\<rparr>)
   \<and> fst (Reconcile exReloadFails exUnregistered) =
       (noRequeue, Some (Wrap ''failed reloading systemd daemon'' (ErrOther ''dbus down'')))
   \<and> trace (snd (Reconcile exReloadFails exUnregistered)) =
     [Client_GetSecret, Client_GetNode ''node-1'',
      FS_TempDir [] ''gardener-node-agent-*'', FS_MkdirAll ''/etc'' 2147483648,
      FS_WriteFile ''/tmp/gardener-node-agent-1/app.conf'' ''a=1'' 384,
      FS_Rename ''/tmp/gardener-node-agent-1/app.conf'' ''/etc/app.conf'',
      FS_RemoveAll ''/tmp/gardener-node-agent-1'',
      FS_ReadFile ''/etc/systemd/system/foo.service'',
      FS_Chmod ''/etc/systemd/system/foo.service'' 384,
      FS_RemoveAll ''/etc/systemd/system/foo.service.d'',
      DBus_Disable ''foo.service'',
      FS_ReadFile ''/etc/systemd/system/web.service'',
      FS_WriteFile ''/etc/systemd/system/web.service'' ''Y'' 384,
      FS_Chmod ''/etc/systemd/system/web.service'' 384,
      FS_MkdirAll ''/etc/systemd/system/web.service.d'' 2147483648,
      FS_ReadFile ''/etc/systemd/system/web.service.d/10-env.conf'',
      FS_WriteFile ''/etc/systemd/system/web.service.d/10-env.conf'' ''E'' 384,
      FS_Chmod ''/etc/systemd/system/web.service.d/10-env.conf'' 384,
      DBus_Enable ''web.service'',
      DBus_Disable ''bar.service'', DBus_Stop ''bar.service'',
      FS_Remove ''/etc/systemd/system/bar.service'',
      FS_RemoveAll ''/etc/systemd/system/bar.service.d'',
      DBus_DaemonReload]"
  by (simp add: pass_defs eval_defs exComputeFails_def exReloadFails_def exReconciler_def
      exUnregistered_def exWorld_def exChanges_def exUnit_def exUnit2_def exDropIn_def)

text \<open>
  C8, amended. The convergence gate is consulted only when the node object exists: for
  every pass in which the node is not found and the extraction and the change
  computation succeed, \<open>Reconcile\<close> never takes the skip, whatever the checksum. It
  runs the six phases in order and stops at the first that fails, returning its error;
  when all six succeed it writes the marker file and, when that write succeeds, asks to
  be requeued after five seconds.
\<close>

theorem node_not_found_never_skips:
  assumes "Client_Get_secret r w = (Inr sec, w1)"
      and "Client_Get_node r w1 = (Inl e, w2)" and "IsNotFound e"
      and "extractOSCFromSecret r sec = Inr (osc, raw, cks)"
      and "computeOperatingSystemConfigChanges r (fs w2) osc = Inr ch"
  shows "Reconcile r w =
           (case applyEngine r None ch sixPhases w2 of
              (Some (p, e), w') \<Rightarrow> ((noRequeue, Some (Wrap (phaseContext p) e)), w')
            | (None, w8) \<Rightarrow>
                (case FS_WriteFile_op r (lastAppliedOperatingSystemConfigFilePath r) raw 420 w8 of
                   (Some e, w9) \<Rightarrow>
                     ((noRequeue, Some (Wrap (''unable to write current OSC to file path ''
                         @ quoted (lastAppliedOperatingSystemConfigFilePath r)) e)), w9)
                 | (None, w9) \<Rightarrow> ((\<lparr>RequeueAfter = 5 * Second\<rparr>, None), w9)))"
proof -
  from assms have "Reconcile_fetch r w = (Proceed None raw cks ch, w2)"
    by (simp add: Reconcile_fetch_def)
  from Reconcile_Proceed[OF this] show ?thesis
    by (simp add: Reconcile_persist_def split: prod.splits option.splits)
qed

theorem node_not_found_never_skips_witness:
  "fst (Reconcile exReconciler exUnregistered) = (\<lparr>RequeueAfter = 5 * Second\<rparr>, None)"
proof -
  let ?w2 = "exUnregistered\<lparr>trace := [Client_GetSecret, Client_GetNode ''node-1'']\<rparr>"
  have x: "extractOSCFromSecret exReconciler [''osc.yaml'' \<mapsto> ''raw''] = Inr ((), ''raw'', ''c1'')"
    by (simp add: exReconciler_def)
  have c: "computeOperatingSystemConfigChanges exReconciler (fs ?w2) () = Inr exChanges"
    by (simp add: exReconciler_def)
  have n: "IsNotFound ErrAPINotFound" by simp
  have "fst (case applyEngine exReconciler None exChanges sixPhases ?w2 of
              (Some (p, e), w') \<Rightarrow> ((noRequeue, Some (Wrap (phaseContext p) e)), w')
            | (None, w8) \<Rightarrow>
                (case FS_WriteFile_op exReconciler (lastAppliedOperatingSystemConfigFilePath exReconciler) ''raw'' 420 w8 of
                   (Some e, w9) \<Rightarrow>
                     ((noRequeue, Some (Wrap (''unable to write current OSC to file path ''
                         @ quoted (lastAppliedOperatingSystemConfigFilePath exReconciler)) e)), w9)
                 | (None, w9) \<Rightarrow> ((\<lparr>RequeueAfter = 5 * Second\<rparr>, None), w9)))
        = (\<lparr>RequeueAfter = 5 * Second\<rparr>, None)"
    by (simp add: eval_defs lastAppliedOperatingSystemConfigFilePath_def exReconciler_def
        exUnregistered_def exWorld_def exChanges_def exUnit_def exUnit2_def exDropIn_def)
  with node_not_found_never_skips[OF ex_unregistered_secret ex_unregistered_node n x c]
  show ?thesis by simp
qed

text \<open>
  C9. In every pass that is not stopped by the convergence gate and in which the three
  phases before the reload succeed, the daemon reload is called exactly once among the
  calls of the pass; this holds for an empty set of changes as well.
\<close>

theorem daemon_reload_exactly_once:
  assumes fetch: "Reconcile_fetch r w = (Proceed nd raw cks ch, w0)"
      and first: "applyEngine r nd ch [WriteChangedFiles, WriteChangedUnits, RemoveDeletedUnits] w0 = (None, w3)"
  shows "count_list (drop (length (trace w)) (trace (snd (Reconcile r w)))) DBus_DaemonReload = 1"
proof -
  from engine_no_reload[OF first] obtain t123 where
    t123: "trace w3 = trace w0 @ t123" "DBus_DaemonReload \<notin> set t123" by auto
  obtain r4 w4 where rel: "invoke r DBus_DaemonReload w3 = (r4, w4)"
    by (cases "invoke r DBus_DaemonReload w3")
  then have t4: "trace w4 = trace w3 @ [DBus_DaemonReload]" by (auto dest: frame_invoke)
  obtain r56 w6 where rest: "applyEngine r nd ch [ExecuteUnitCommands, RemoveDeletedFiles] w4 = (r56, w6)"
    by (cases "applyEngine r nd ch [ExecuteUnitCommands, RemoveDeletedFiles] w4")
  from engine_no_reload[OF rest] obtain t56 where
    t56: "trace w6 = trace w4 @ t56" "DBus_DaemonReload \<notin> set t56" by auto
  obtain out w9 where per: "Reconcile_persist r nd raw cks w6 = (out, w9)"
    by (cases "Reconcile_persist r nd raw cks w6")
  from Reconcile_persist_no_reload[OF per] obtain tp where
    tp: "trace w9 = trace w6 @ tp" "DBus_DaemonReload \<notin> set tp" by auto
  have six: "sixPhases = [WriteChangedFiles, WriteChangedUnits, RemoveDeletedUnits]
               @ ReloadDaemon # [ExecuteUnitCommands, RemoveDeletedFiles]"
    by (simp add: sixPhases_def)
  have eng: "applyEngine r nd ch sixPhases w0 =
               (case r4 of Some e \<Rightarrow> (Some (ReloadDaemon, e), w4)
                | None \<Rightarrow> (r56, w6))"
    unfolding six applyEngine_append using first rel rest by (cases r4) simp_all
  have "\<exists>t. trace (snd (Reconcile r w)) = trace w3 @ DBus_DaemonReload # t \<and> DBus_DaemonReload \<notin> set t"
  proof (cases r4)
    case (Some e)
    with eng t4 show ?thesis by (simp add: Reconcile_Proceed[OF fetch])
  next
    case None
    show ?thesis
    proof (cases r56)
      case (Some pe)
      with None eng t4 t56 show ?thesis by (cases pe) (simp add: Reconcile_Proceed[OF fetch])
    next
      case None2: None
      with None eng per t4 t56 tp show ?thesis by (simp add: Reconcile_Proceed[OF fetch])
    qed
  qed
  then obtain t where t: "trace (snd (Reconcile r w)) = trace w3 @ DBus_DaemonReload # t"
    "DBus_DaemonReload \<notin> set t" by blast
  from Reconcile_fetch_Proceed[OF fetch] have
    "trace w0 = trace w @ [Client_GetSecret, Client_GetNode (NodeName r)]" by simp
  with t t123 show ?thesis by (simp add: count_list_0_iff)
qed

theorem daemon_reload_exactly_once_witness:
  "filesChanged exNoChanges = [] \<and> filesDeleted exNoChanges = []
   \<and> unitsChanged exNoChanges = [] \<and> unitsDeleted exNoChanges = []
   \<and> count_list (trace (snd (Reconcile exIdle exWorld))) DBus_DaemonReload = 1
   \<and> trace (snd (Reconcile exIdle exWorld)) =
     [Client_GetSecret, Client_GetNode ''node-1'',
      FS_TempDir [] ''gardener-node-agent-*'', FS_RemoveAll ''/tmp/gardener-node-agent-1'',
      DBus_DaemonReload,
      FS_WriteFile ''/var/lib/gardener-node-agent/last-applied-osc.yaml'' ''raw'' 420,
      Recorder_Event ''OSCApplied'' ''Operating system config has been applied successfully'',
      Client_Patch [(''worker.gardener.cloud/kubernetes-version'', ''1.27.3''),
                    (''checksum/cloud-config-data'', ''c1'')]]"
proof -
  let ?w0 = "exWorld\<lparr>trace := [Client_GetSecret, Client_GetNode ''node-1'']\<rparr>"
  obtain w3 where "applyEngine exIdle (Some Map.empty) exNoChanges
          [WriteChangedFiles, WriteChangedUnits, RemoveDeletedUnits] ?w0 = (None, w3)"
    using ex_idle_first
    by (cases "applyEngine exIdle (Some Map.empty) exNoChanges
          [WriteChangedFiles, WriteChangedUnits, RemoveDeletedUnits] ?w0") auto
  from daemon_reload_exactly_once[OF ex_idle_fetch this]
  have "count_list (trace (snd (Reconcile exIdle exWorld))) DBus_DaemonReload = 1"
    by (simp add: exWorld_def)
  with ex_idle_trace show ?thesis by (simp add: exNoChanges_def)
qed



end
